theory Spec2Isabelle
  imports Complex_Main "HOL-Library.AList" "HOL-Library.Sublist" "HOL-Library.Product_Lexorder"
begin

section \<open>Python values and built-ins used by the program\<close>

text \<open>
  Python \<open>int\<close> is \<open>int\<close>, \<open>str\<close> is \<open>string\<close> (one \<open>char\<close> per code point below 256),
  \<open>float\<close> is idealised as \<open>real\<close> (no rounding, no NaN, no infinity), a \<open>dict\<close> is an
  association list in insertion order whose keys are distinct, read with \<open>map_of\<close> and
  written with \<open>AList.update\<close>. Every exception the modelled code can see is a value of
  \<open>exn\<close>.
\<close>

datatype usb_error = UsbError (errno: "int option") (str_exc: string)

datatype exn =
    BackendError string
  | USBError usb_error
  | ValueError
  | TypeError
  | OSError

text \<open>\<open>str(n)\<close> for an integer: decimal digits, a leading minus sign when negative.\<close>

fun str_nat :: "nat \<Rightarrow> string" where
  "str_nat n = (if n < 10 then [''0123456789'' ! n]
                else str_nat (n div 10) @ [''0123456789'' ! (n mod 10)])"

declare str_nat.simps [simp del]

definition str_int :: "int \<Rightarrow> string" where
  "str_int i = (if i < 0 then CHR ''-'' # str_nat (nat (- i)) else str_nat (nat i))"

text \<open>\<open>format(n, "04x")\<close>: lower-case hexadecimal, zero-padded to four characters, the
  sign counted in the width.\<close>

fun hex_nat :: "nat \<Rightarrow> string" where
  "hex_nat n = (if n < 16 then [''0123456789abcdef'' ! n]
                else hex_nat (n div 16) @ [''0123456789abcdef'' ! (n mod 16)])"

declare hex_nat.simps [simp del]

definition zero_pad :: "nat \<Rightarrow> string \<Rightarrow> string" where
  "zero_pad w s = replicate (w - length s) (CHR ''0'') @ s"

definition format_04x :: "int \<Rightarrow> string" where
  "format_04x i = (if i < 0 then CHR ''-'' # zero_pad 3 (hex_nat (nat (- i)))
                   else zero_pad 4 (hex_nat (nat i)))"

text \<open>\<open>str.lower\<close>, \<open>str.upper\<close> and \<open>str.strip\<close> on the characters below 256 that have
  an ASCII image; \<open>needle in haystack\<close> for strings.\<close>

definition lower_char :: "char \<Rightarrow> char" where
  "lower_char c = (let n = (of_char c :: nat) in if 65 \<le> n \<and> n \<le> 90 then char_of (n + 32) else c)"

definition upper_char :: "char \<Rightarrow> char" where
  "upper_char c = (let n = (of_char c :: nat) in if 97 \<le> n \<and> n \<le> 122 then char_of (n - 32) else c)"

definition lower :: "string \<Rightarrow> string" where
  "lower s = map lower_char s"

definition upper :: "string \<Rightarrow> string" where
  "upper s = map upper_char s"

definition is_space :: "char \<Rightarrow> bool" where
  "is_space c = List.member [9, 10, 11, 12, 13, 28, 29, 30, 31, 32, 133, 160] (of_char c :: nat)"

definition strip :: "string \<Rightarrow> string" where
  "strip s = rev (dropWhile is_space (rev (dropWhile is_space s)))"

fun str_contains :: "string \<Rightarrow> string \<Rightarrow> bool" where
  "str_contains needle [] = (needle = [])"
| "str_contains needle (c # cs) = (prefix needle (c # cs) \<or> str_contains needle cs)"

text \<open>The Python objects that reach the parsing code: what \<open>json.loads\<close> produces and
  what \<open>to_json\<close> builds.\<close>

datatype json =
    JNull
  | JBool bool
  | JInt int
  | JFloat real
  | JStr string
  | JList "json list"
  | JDict "(string \<times> json) list"

text \<open>The conversions of the host language that the source calls and does not define:
  \<open>int(s)\<close> and \<open>float(s)\<close> on a string (\<open>None\<close> is \<open>ValueError\<close>) and \<open>str(x)\<close> on an
  object that is not a string.\<close>

record py_builtins =
  int_of_str :: "string \<Rightarrow> int option"
  float_of_str :: "string \<Rightarrow> real option"
  str_of_other :: "json \<Rightarrow> string"

definition py_int :: "py_builtins \<Rightarrow> json \<Rightarrow> exn + int" where
  "py_int py v =
     (case v of
        JInt i \<Rightarrow> Inr i
      | JBool b \<Rightarrow> Inr (if b then 1 else 0)
      | JFloat x \<Rightarrow> Inr (if 0 \<le> x then \<lfloor>x\<rfloor> else \<lceil>x\<rceil>)
      | JStr s \<Rightarrow> (case int_of_str py s of None \<Rightarrow> Inl ValueError | Some i \<Rightarrow> Inr i)
      | _ \<Rightarrow> Inl TypeError)"

definition py_float :: "py_builtins \<Rightarrow> json \<Rightarrow> exn + real" where
  "py_float py v =
     (case v of
        JFloat x \<Rightarrow> Inr x
      | JInt i \<Rightarrow> Inr (real_of_int i)
      | JBool b \<Rightarrow> Inr (if b then 1 else 0)
      | JStr s \<Rightarrow> (case float_of_str py s of None \<Rightarrow> Inl ValueError | Some x \<Rightarrow> Inr x)
      | _ \<Rightarrow> Inl TypeError)"

definition py_str :: "py_builtins \<Rightarrow> json \<Rightarrow> string" where
  "py_str py v = (case v of JStr s \<Rightarrow> s | _ \<Rightarrow> str_of_other py v)"

definition dict_get :: "('k \<times> 'v) list \<Rightarrow> 'k \<Rightarrow> 'v \<Rightarrow> 'v" where
  "dict_get d k dflt = (case map_of d k of None \<Rightarrow> dflt | Some v \<Rightarrow> v)"


section \<open>protocol.py\<close>

definition VENDOR_ID :: int where
  "VENDOR_ID = 0x0738"

definition SUPPORTED_PRODUCTS :: "(int \<times> string) list" where
  "SUPPORTED_PRODUCTS = [(0x2221, ''X-56 Joystick''), (0xA221, ''X-56 Throttle'')]"

definition USB_TIMEOUT_MS :: int where
  "USB_TIMEOUT_MS = 4000"

definition REQUEST_TYPE_SET_REPORT :: int where
  "REQUEST_TYPE_SET_REPORT = 0x21"

definition REQUEST_SET_REPORT :: int where
  "REQUEST_SET_REPORT = 0x09"

definition WVALUE_RGB :: int where
  "WVALUE_RGB = 0x0309"

definition WVALUE_APPLY :: int where
  "WVALUE_APPLY = 0x0300"

definition WINDEX_INTERFACE_2 :: int where
  "WINDEX_INTERFACE_2 = push_bit 8 2"

definition PACKET_SIZE :: nat where
  "PACKET_SIZE = 64"

text \<open>A \<open>bytearray\<close> is a list of integers in \<open>range(256)\<close>; storing any other integer
  raises \<open>ValueError\<close>.\<close>

definition bytearray_set :: "int list \<Rightarrow> nat \<Rightarrow> int \<Rightarrow> exn + int list" where
  "bytearray_set packet i v =
     (if 0 \<le> v \<and> v < 256 then Inr (packet[i := v]) else Inl ValueError)"

definition build_rgb_packet :: "int \<Rightarrow> int \<Rightarrow> int \<Rightarrow> exn + int list" where
  "build_rgb_packet r g b =
     (let packet = (replicate PACKET_SIZE 0)[0 := 0x09, 1 := 0x00, 2 := 0x03] in
      case bytearray_set packet 3 r of Inl e \<Rightarrow> Inl e | Inr p3 \<Rightarrow>
      (case bytearray_set p3 4 g of Inl e \<Rightarrow> Inl e | Inr p4 \<Rightarrow>
       bytearray_set p4 5 b))"

definition build_apply_packet :: "int list" where
  "build_apply_packet = (replicate PACKET_SIZE 0)[0 := 0x01, 1 := 0x01]"


section \<open>calibration.py\<close>

definition CHANNELS :: "string list" where
  "CHANNELS = [''R'', ''G'', ''B'']"

definition CALIBRATION_COLORS :: "(string \<times> int \<times> int \<times> int) list" where
  "CALIBRATION_COLORS =
     [(''Red'', (255, 0, 0)),
      (''Green'', (0, 255, 0)),
      (''Blue'', (0, 0, 255)),
      (''Orange'', (190, 20, 0)),
      (''Purple'', (180, 0, 200)),
      (''Pink'', (190, 4, 18)),
      (''White'', (255, 255, 255))]"

record ColorOffset =
  red :: int
  green :: int
  blue :: int

definition ColorOffset_default :: ColorOffset where
  "ColorOffset_default = \<lparr>red = 0, green = 0, blue = 0\<rparr>"

definition ColorOffset_to_json :: "ColorOffset \<Rightarrow> (string \<times> json) list" where
  "ColorOffset_to_json self =
     [(''red'', JInt (red self)), (''green'', JInt (green self)), (''blue'', JInt (blue self))]"

definition to_int :: "py_builtins \<Rightarrow> json \<Rightarrow> int \<Rightarrow> int" where
  "to_int py v dflt = (case py_int py v of Inr i \<Rightarrow> i | Inl _ \<Rightarrow> dflt)"

definition ColorOffset_from_json :: "py_builtins \<Rightarrow> (string \<times> json) list \<Rightarrow> ColorOffset" where
  "ColorOffset_from_json py data =
     \<lparr>red = to_int py (dict_get data ''red'' (JInt 0)) 0,
      green = to_int py (dict_get data ''green'' (JInt 0)) 0,
      blue = to_int py (dict_get data ''blue'' (JInt 0)) 0\<rparr>"

record ColorCalibration =
  order :: "string \<times> string \<times> string"
  gain_r :: real
  gain_g :: real
  gain_b :: real
  target_offsets :: "(string \<times> ColorOffset) list option"

definition ColorCalibration_default :: ColorCalibration where
  "ColorCalibration_default =
     \<lparr>order = (''R'', ''G'', ''B''), gain_r = 1, gain_g = 1, gain_b = 1, target_offsets = None\<rparr>"

text \<open>\<open>closest_target_name\<close>: the loop over \<open>CALIBRATION_COLORS.items()\<close>, with
  \<open>best_distance = None\<close> for \<open>float("inf")\<close>.\<close>

definition distance_to :: "int \<Rightarrow> int \<Rightarrow> int \<Rightarrow> int \<times> int \<times> int \<Rightarrow> real" where
  "distance_to r g b rgb =
     sqrt (real_of_int ((r - fst rgb)\<^sup>2 + (g - fst (snd rgb))\<^sup>2 + (b - snd (snd rgb))\<^sup>2))"

fun less_than_best :: "real \<Rightarrow> real option \<Rightarrow> bool" where
  "less_than_best d None = True"
| "less_than_best d (Some best) = (d < best)"

fun closest_loop ::
  "int \<Rightarrow> int \<Rightarrow> int \<Rightarrow> (string \<times> int \<times> int \<times> int) list \<Rightarrow> string \<Rightarrow> real option \<Rightarrow> string" where
  "closest_loop r g b [] best_name best_distance = best_name"
| "closest_loop r g b ((name, rgb) # rest) best_name best_distance =
     (let distance = distance_to r g b rgb in
      if less_than_best distance best_distance
      then closest_loop r g b rest name (Some distance)
      else closest_loop r g b rest best_name best_distance)"

definition closest_target_name :: "int \<Rightarrow> int \<Rightarrow> int \<Rightarrow> string" where
  "closest_target_name r g b = closest_loop r g b CALIBRATION_COLORS ''White'' None"

text \<open>\<open>x or y\<close> on an optional string: \<open>None\<close> and the empty string are both false.\<close>

definition str_or :: "string option \<Rightarrow> string \<Rightarrow> string" where
  "str_or x y = (case x of None \<Rightarrow> y | Some s \<Rightarrow> if s = [] then y else s)"

definition offsets_or_empty :: "ColorCalibration \<Rightarrow> (string \<times> ColorOffset) list" where
  "offsets_or_empty self = (case target_offsets self of None \<Rightarrow> [] | Some d \<Rightarrow> d)"

definition ColorCalibration_apply ::
  "ColorCalibration \<Rightarrow> int \<Rightarrow> int \<Rightarrow> int \<Rightarrow> string option \<Rightarrow> int \<times> int \<times> int" where
  "ColorCalibration_apply self r g b target_name =
     (let offsets = offsets_or_empty self in
      if offsets \<noteq> [] then
        (let selected_target = str_or target_name (closest_target_name r g b) in
         case map_of offsets selected_target of
           None \<Rightarrow> (r, g, b)
         | Some offset \<Rightarrow>
             (max 0 (min 255 (r + red offset)),
              max 0 (min 255 (g + green offset)),
              max 0 (min 255 (b + blue offset))))
      else (r, g, b))"

definition offset_for :: "ColorCalibration \<Rightarrow> string \<Rightarrow> ColorOffset" where
  "offset_for self target_name = dict_get (offsets_or_empty self) target_name ColorOffset_default"

definition with_offset :: "ColorCalibration \<Rightarrow> string \<Rightarrow> ColorOffset \<Rightarrow> ColorCalibration" where
  "with_offset self target_name offset =
     self\<lparr>target_offsets := Some (AList.update target_name offset (offsets_or_empty self))\<rparr>"

definition ColorCalibration_to_json :: "ColorCalibration \<Rightarrow> (string \<times> json) list" where
  "ColorCalibration_to_json self =
     [(''order'', JList [JStr (fst (order self)), JStr (fst (snd (order self))), JStr (snd (snd (order self)))]),
      (''gain_r'', JFloat (gain_r self)),
      (''gain_g'', JFloat (gain_g self)),
      (''gain_b'', JFloat (gain_b self)),
      (''target_offsets'',
         JDict (map (\<lambda>(k, v). (k, JDict (ColorOffset_to_json v))) (offsets_or_empty self)))]"

fun parse_offsets_loop ::
  "py_builtins \<Rightarrow> (string \<times> json) list \<Rightarrow> (string \<times> ColorOffset) list \<Rightarrow> (string \<times> ColorOffset) list" where
  "parse_offsets_loop py [] parsed = parsed"
| "parse_offsets_loop py ((key, v) # rest) parsed =
     (case v of
        JDict d \<Rightarrow>
          if map_of CALIBRATION_COLORS key = None then parse_offsets_loop py rest parsed
          else parse_offsets_loop py rest (AList.update key (ColorOffset_from_json py d) parsed)
      | _ \<Rightarrow> parse_offsets_loop py rest parsed)"

definition parse_offsets :: "py_builtins \<Rightarrow> json \<Rightarrow> (string \<times> ColorOffset) list" where
  "parse_offsets py raw = (case raw of JDict kvs \<Rightarrow> parse_offsets_loop py kvs [] | _ \<Rightarrow> [])"

definition parse_order :: "py_builtins \<Rightarrow> json \<Rightarrow> string \<times> string \<times> string" where
  "parse_order py order_raw =
     (case order_raw of
        JList xs \<Rightarrow>
          if length xs \<noteq> 3 then (''R'', ''G'', ''B'')
          else (let parsed = map (\<lambda>x. upper (py_str py x)) xs in
                if list_ex (\<lambda>item. \<not> List.member CHANNELS item) parsed then (''R'', ''G'', ''B'')
                else (parsed ! 0, parsed ! 1, parsed ! 2))
      | _ \<Rightarrow> (''R'', ''G'', ''B''))"

definition ColorCalibration_from_json :: "py_builtins \<Rightarrow> (string \<times> json) list \<Rightarrow> exn + ColorCalibration" where
  "ColorCalibration_from_json py data =
     (let order_raw = dict_get data ''order'' (JList [JStr ''R'', JStr ''G'', JStr ''B''])
      in let ord = parse_order py order_raw in
      case py_float py (dict_get data ''gain_r'' (JFloat 1)) of Inl e \<Rightarrow> Inl e | Inr gr \<Rightarrow>
      (case py_float py (dict_get data ''gain_g'' (JFloat 1)) of Inl e \<Rightarrow> Inl e | Inr gg \<Rightarrow>
       (case py_float py (dict_get data ''gain_b'' (JFloat 1)) of Inl e \<Rightarrow> Inl e | Inr gb \<Rightarrow>
          Inr \<lparr>order = ord, gain_r = gr, gain_g = gg, gain_b = gb,
               target_offsets = Some (parse_offsets py (dict_get data ''target_offsets'' JNull))\<rparr>)))"

text \<open>\<open>DeviceInfo\<close> of usb_backend.py, declared here because the store's keys are built from
  it. The field \<open>id\<close> is written \<open>id'\<close>.\<close>

record DeviceInfo =
  id' :: int
  name :: string
  bus :: int
  address :: int
  product_id :: int

text \<open>\<open>CalibrationStore\<close>: the dictionary \<open>_profiles\<close> and the file behind \<open>_path\<close>. The
  file is its last written payload (\<open>None\<close> before the first write); \<open>writable\<close> says
  whether \<open>write_text\<close> succeeds, and a failed write raises \<open>OSError\<close>.\<close>

record CalibrationStore =
  profiles :: "(string \<times> ColorCalibration) list"
  file_payload :: "(string \<times> json) list option"
  writable :: bool

definition key_for_device :: "DeviceInfo \<Rightarrow> string" where
  "key_for_device device = format_04x (product_id device)"

definition legacy_key_for_device :: "DeviceInfo \<Rightarrow> string" where
  "legacy_key_for_device device =
     format_04x (product_id device) @ '':'' @ str_int (bus device) @ '':'' @ str_int (address device)"

definition save :: "CalibrationStore \<Rightarrow> exn + CalibrationStore" where
  "save self =
     (let payload = [(''profiles'',
                      JDict (map (\<lambda>(k, v). (k, JDict (ColorCalibration_to_json v))) (profiles self)))]
      in if writable self then Inr (self\<lparr>file_payload := Some payload\<rparr>) else Inl OSError)"

definition get_for_device ::
  "CalibrationStore \<Rightarrow> DeviceInfo \<Rightarrow> (exn + ColorCalibration option) \<times> CalibrationStore" where
  "get_for_device self device =
     (let key = key_for_device device in
      case map_of (profiles self) key of
        Some direct \<Rightarrow> (Inr (Some direct), self)
      | None \<Rightarrow>
          (let legacy_key = legacy_key_for_device device in
           case map_of (profiles self) legacy_key of
             Some legacy \<Rightarrow>
               (let self1 = self\<lparr>profiles := AList.update key legacy (profiles self)\<rparr> in
                case save self1 of
                  Inl e \<Rightarrow> (Inl e, self1)
                | Inr self2 \<Rightarrow> (Inr (Some legacy), self2))
           | None \<Rightarrow> (Inr None, self)))"

definition set_for_device ::
  "CalibrationStore \<Rightarrow> DeviceInfo \<Rightarrow> ColorCalibration \<Rightarrow> exn option \<times> CalibrationStore" where
  "set_for_device self device calibration =
     (let key = key_for_device device;
          self1 = self\<lparr>profiles := AList.update key calibration (profiles self)\<rparr>;
          legacy_key = legacy_key_for_device device;
          self2 = (if map_of (profiles self1) legacy_key \<noteq> None
                   then self1\<lparr>profiles := AList.delete legacy_key (profiles self1)\<rparr>
                   else self1)
      in case save self2 of Inl e \<Rightarrow> (Some e, self2) | Inr self3 \<Rightarrow> (None, self3))"

definition reset_for_device :: "CalibrationStore \<Rightarrow> DeviceInfo \<Rightarrow> exn option \<times> CalibrationStore" where
  "reset_for_device self device =
     (let key = key_for_device device;
          legacy_key = legacy_key_for_device device;
          has_key = (map_of (profiles self) key \<noteq> None);
          self1 = (if has_key then self\<lparr>profiles := AList.delete key (profiles self)\<rparr> else self);
          has_legacy = (map_of (profiles self1) legacy_key \<noteq> None);
          self2 = (if has_legacy then self1\<lparr>profiles := AList.delete legacy_key (profiles self1)\<rparr>
                   else self1)
      in if has_key \<or> has_legacy
         then (case save self2 of Inl e \<Rightarrow> (Some e, self2) | Inr self3 \<Rightarrow> (None, self3))
         else (None, self2))"


section \<open>usb_backend.py\<close>

text \<open>
  The USB library is the program's collaborator. A \<open>usb.core.Device\<close> is a handle with the
  attributes the program reads. Every call the program makes is recorded, in order, in a
  trace; what a call answers is given by a \<open>usb_host\<close>, as a function of the calls made
  before it. A call either returns or raises \<open>usb.core.USBError\<close>;
  \<open>is_kernel_driver_active\<close> may also raise \<open>NotImplementedError\<close>, which the program treats
  exactly as \<open>USBError\<close> there, so one error reply stands for both.
\<close>

record usb_core_Device =
  handle :: nat
  idProduct :: int
  bus :: int
  address :: int

datatype usb_call =
    Find int
  | SetConfiguration nat
  | IsKernelDriverActive nat int
  | DetachKernelDriver nat int
  | AttachKernelDriver nat int
  | ClaimInterface nat int
  | ReleaseInterface nat int
  | CtrlTransfer nat int int int int "int list" int

record usb_host =
  find_reply :: "usb_call list \<Rightarrow> usb_error + usb_core_Device list"
  kernel_active_reply :: "usb_call list \<Rightarrow> nat \<Rightarrow> int \<Rightarrow> usb_error + bool"
  call_reply :: "usb_call list \<Rightarrow> usb_call \<Rightarrow> usb_error option"

definition do_call :: "usb_host \<Rightarrow> usb_call \<Rightarrow> usb_call list \<Rightarrow> usb_error option \<times> usb_call list" where
  "do_call hw c tr = (call_reply hw tr c, tr @ [c])"

record DeviceEntry =
  info :: DeviceInfo
  device :: usb_core_Device

fun make_entries :: "(nat \<times> usb_core_Device) list \<Rightarrow> DeviceEntry list" where
  "make_entries [] = []"
| "make_entries ((index, dev) # rest) =
     \<lparr>info = \<lparr>id' = int index,
               name = dict_get SUPPORTED_PRODUCTS (idProduct dev) [],
               bus = usb_core_Device.bus dev,
               address = usb_core_Device.address dev,
               product_id = idProduct dev\<rparr>,
      device = dev\<rparr> # make_entries rest"

definition refresh ::
  "usb_host \<Rightarrow> DeviceEntry list \<Rightarrow> usb_call list
     \<Rightarrow> (exn + DeviceInfo list) \<times> DeviceEntry list \<times> usb_call list" where
  "refresh hw entries tr =
     (case find_reply hw tr of
        Inl e \<Rightarrow> (Inl (USBError e), entries, tr @ [Find VENDOR_ID])
      | Inr devices \<Rightarrow>
          (let filtered = filter (\<lambda>dev. map_of SUPPORTED_PRODUCTS (idProduct dev) \<noteq> None) devices;
               sorted_devs = sort_key (\<lambda>dev. (usb_core_Device.bus dev, usb_core_Device.address dev)) filtered;
               new_entries = make_entries (List.enumerate 1 sorted_devs)
           in (Inr (map info new_entries), new_entries, tr @ [Find VENDOR_ID])))"

definition validate_rgb :: "int \<Rightarrow> int \<Rightarrow> int \<Rightarrow> exn option" where
  "validate_rgb r g b =
     (if list_ex (\<lambda>v. v < 0 \<or> v > 255) [r, g, b]
      then Some (BackendError ''RGB values must be in range 0-255.'')
      else None)"

definition is_pipe_error :: "usb_error \<Rightarrow> bool" where
  "is_pipe_error exc =
     (if errno exc = Some 32 then True else str_contains ''pipe error'' (lower (str_exc exc)))"

definition kernel_active :: "usb_host \<Rightarrow> nat \<Rightarrow> int \<Rightarrow> usb_call list \<Rightarrow> bool \<times> usb_call list" where
  "kernel_active hw dev iface tr =
     ((case kernel_active_reply hw tr dev iface of Inr b \<Rightarrow> b | Inl _ \<Rightarrow> False),
      tr @ [IsKernelDriverActive dev iface])"

text \<open>\<open>_send_rgb_with_setup\<close>, in three parts: the loop that detaches and claims, the body of
  the \<open>try\<close>, and the loop of the \<open>finally\<close>. \<open>attached\<close> is \<open>attached_ifaces\<close>.\<close>

fun claim_interfaces ::
  "usb_host \<Rightarrow> nat \<Rightarrow> int list \<Rightarrow> int list \<Rightarrow> usb_call list
     \<Rightarrow> usb_error option \<times> int list \<times> usb_call list" where
  "claim_interfaces hw dev [] attached tr = (None, attached, tr)"
| "claim_interfaces hw dev (iface # rest) attached tr =
     (case kernel_active hw dev iface tr of
        (True, tr1) \<Rightarrow>
          (case do_call hw (DetachKernelDriver dev iface) tr1 of
             (Some e, tr2) \<Rightarrow> (Some e, attached, tr2)
           | (None, tr2) \<Rightarrow>
               (case do_call hw (ClaimInterface dev iface) tr2 of
                  (Some e, tr3) \<Rightarrow> (Some e, attached @ [iface], tr3)
                | (None, tr3) \<Rightarrow> claim_interfaces hw dev rest (attached @ [iface]) tr3))
      | (False, tr1) \<Rightarrow>
          (case do_call hw (ClaimInterface dev iface) tr1 of
             (Some e, tr3) \<Rightarrow> (Some e, attached, tr3)
           | (None, tr3) \<Rightarrow> claim_interfaces hw dev rest attached tr3))"

definition transfer_body ::
  "usb_host \<Rightarrow> nat \<Rightarrow> int list \<Rightarrow> int \<Rightarrow> int list \<Rightarrow> int list \<Rightarrow> usb_call list
     \<Rightarrow> usb_error option \<times> int list \<times> usb_call list" where
  "transfer_body hw dev interfaces windex rgb_packet apply_packet tr =
     (case do_call hw (SetConfiguration dev) tr of (_, tr1) \<Rightarrow>
      (case claim_interfaces hw dev interfaces [] tr1 of
         (Some e, attached, tr2) \<Rightarrow> (Some e, attached, tr2)
       | (None, attached, tr2) \<Rightarrow>
           (case do_call hw (CtrlTransfer dev REQUEST_TYPE_SET_REPORT REQUEST_SET_REPORT
                               WVALUE_RGB windex rgb_packet USB_TIMEOUT_MS) tr2 of
              (Some e, tr3) \<Rightarrow> (Some e, attached, tr3)
            | (None, tr3) \<Rightarrow>
                (case do_call hw (CtrlTransfer dev REQUEST_TYPE_SET_REPORT REQUEST_SET_REPORT
                                    WVALUE_APPLY windex apply_packet USB_TIMEOUT_MS) tr3 of
                   (Some e, tr4) \<Rightarrow>
                     (if is_pipe_error e then (None, attached, tr4) else (Some e, attached, tr4))
                 | (None, tr4) \<Rightarrow> (None, attached, tr4)))))"

fun release_interfaces :: "usb_host \<Rightarrow> nat \<Rightarrow> int list \<Rightarrow> int list \<Rightarrow> usb_call list \<Rightarrow> usb_call list" where
  "release_interfaces hw dev [] attached tr = tr"
| "release_interfaces hw dev (iface # rest) attached tr =
     (case do_call hw (ReleaseInterface dev iface) tr of (_, tr1) \<Rightarrow>
        (if List.member attached iface
         then (case do_call hw (AttachKernelDriver dev iface) tr1 of (_, tr2) \<Rightarrow>
                 release_interfaces hw dev rest attached tr2)
         else release_interfaces hw dev rest attached tr1))"

definition transfer_failed :: "usb_error \<Rightarrow> exn" where
  "transfer_failed exc =
     (let details = strip (str_exc exc) in
      if details \<noteq> [] then BackendError (''USB transfer failed ('' @ details @ '').'')
      else BackendError ''USB transfer failed.'')"

definition send_rgb_with_setup ::
  "usb_host \<Rightarrow> nat \<Rightarrow> int list \<Rightarrow> int \<Rightarrow> int list \<Rightarrow> int list \<Rightarrow> usb_call list
     \<Rightarrow> exn option \<times> usb_call list" where
  "send_rgb_with_setup hw dev interfaces windex rgb_packet apply_packet tr =
     (case transfer_body hw dev interfaces windex rgb_packet apply_packet tr of
        (r, attached, tr1) \<Rightarrow>
          (map_option transfer_failed r, release_interfaces hw dev interfaces attached tr1))"

text \<open>\<open>_set_rgb_single\<close>: the table of attempts and the loop over it.\<close>

definition attempts :: "(int list \<times> int) list" where
  "attempts = [([2, 0], WINDEX_INTERFACE_2), ([2, 0], 2), ([2], WINDEX_INTERFACE_2), ([2], 2)]"

fun attempts_loop ::
  "usb_host \<Rightarrow> nat \<Rightarrow> int list \<Rightarrow> int list \<Rightarrow> (int list \<times> int) list \<Rightarrow> exn option \<Rightarrow> usb_call list
     \<Rightarrow> exn option \<times> usb_call list" where
  "attempts_loop hw dev rgb_packet apply_packet [] last_error tr =
     (case last_error of
        Some e \<Rightarrow> (Some e, tr)
      | None \<Rightarrow> (Some (BackendError ''USB transfer failed. Unknown error.''), tr))"
| "attempts_loop hw dev rgb_packet apply_packet ((interfaces, windex) # rest) last_error tr =
     (case send_rgb_with_setup hw dev interfaces windex rgb_packet apply_packet tr of
        (None, tr1) \<Rightarrow> (None, tr1)
      | (Some (BackendError msg), tr1) \<Rightarrow>
          attempts_loop hw dev rgb_packet apply_packet rest (Some (BackendError msg)) tr1
      | (Some e, tr1) \<Rightarrow> (Some e, tr1))"

definition set_rgb_single ::
  "usb_host \<Rightarrow> nat \<Rightarrow> int list \<Rightarrow> int list \<Rightarrow> usb_call list \<Rightarrow> exn option \<times> usb_call list" where
  "set_rgb_single hw dev rgb_packet apply_packet tr =
     attempts_loop hw dev rgb_packet apply_packet attempts None tr"

text \<open>\<open>set_rgb_many\<close>: the selection of \<open>targets\<close>, the loop over them, and the whole
  method. The state is the backend's \<open>_entries\<close> and the trace.\<close>

definition select_targets :: "DeviceEntry list \<Rightarrow> int list \<Rightarrow> DeviceEntry list" where
  "select_targets entries device_ids =
     (if List.member device_ids 0 then entries
      else filter (\<lambda>entry. List.member device_ids (id' (info entry))) entries)"

definition calibrated_rgb ::
  "(int \<times> ColorCalibration) list \<Rightarrow> string option \<Rightarrow> DeviceEntry \<Rightarrow> int \<Rightarrow> int \<Rightarrow> int
     \<Rightarrow> int \<times> int \<times> int" where
  "calibrated_rgb calibration_map calibration_target entry r g b =
     (case map_of calibration_map (id' (info entry)) of
        Some calibration \<Rightarrow>
          (let target_name = str_or calibration_target (closest_target_name r g b)
           in ColorCalibration_apply calibration r g b (Some target_name))
      | None \<Rightarrow> (r, g, b))"

definition failure_text :: "DeviceEntry \<Rightarrow> string \<Rightarrow> string" where
  "failure_text entry msg =
     ''Device '' @ str_int (id' (info entry)) @ '' ('' @ name (info entry) @ ''): '' @ msg"

fun targets_loop ::
  "usb_host \<Rightarrow> DeviceEntry list \<Rightarrow> int \<Rightarrow> int \<Rightarrow> int \<Rightarrow> (int \<times> ColorCalibration) list \<Rightarrow> string option
     \<Rightarrow> int list \<Rightarrow> int \<Rightarrow> string list \<Rightarrow> usb_call list
     \<Rightarrow> (exn + int \<times> string list) \<times> usb_call list" where
  "targets_loop hw [] r g b calibration_map calibration_target apply_packet applied failures tr =
     (Inr (applied, failures), tr)"
| "targets_loop hw (entry # rest) r g b calibration_map calibration_target apply_packet applied failures tr =
     (case calibrated_rgb calibration_map calibration_target entry r g b of
        (out_r, out_g, out_b) \<Rightarrow>
          (case build_rgb_packet out_r out_g out_b of
             Inl e \<Rightarrow> (Inl e, tr)
           | Inr rgb_packet \<Rightarrow>
               (case set_rgb_single hw (handle (device entry)) rgb_packet apply_packet tr of
                  (None, tr1) \<Rightarrow>
                    targets_loop hw rest r g b calibration_map calibration_target apply_packet
                      (applied + 1) failures tr1
                | (Some (BackendError msg), tr1) \<Rightarrow>
                    targets_loop hw rest r g b calibration_map calibration_target apply_packet
                      applied (failures @ [failure_text entry msg]) tr1
                | (Some e, tr1) \<Rightarrow> (Inl e, tr1))))"

text \<open>The first half of \<open>set_rgb_many\<close>, up to the check of \<open>targets\<close>: it raises or yields
  the targets.\<close>

definition resolve_targets ::
  "usb_host \<Rightarrow> int list \<Rightarrow> int \<Rightarrow> int \<Rightarrow> int \<Rightarrow> DeviceEntry list \<Rightarrow> usb_call list
     \<Rightarrow> (exn + DeviceEntry list) \<times> DeviceEntry list \<times> usb_call list" where
  "resolve_targets hw device_ids r g b entries tr =
     (case validate_rgb r g b of
        Some e \<Rightarrow> (Inl e, entries, tr)
      | None \<Rightarrow>
          (case (if entries = [] then refresh hw entries tr else (Inr [], entries, tr)) of
             (Inl e, entries1, tr1) \<Rightarrow> (Inl e, entries1, tr1)
           | (Inr _, entries1, tr1) \<Rightarrow>
               if entries1 = [] then (Inl (BackendError ''No compatible X-56 devices found.''), entries1, tr1)
               else if device_ids = [] then (Inl (BackendError ''No target device selected.''), entries1, tr1)
               else (let targets = select_targets entries1 device_ids in
                     if targets = [] then (Inl (BackendError ''Selected device ids were not found.''), entries1, tr1)
                     else (Inr targets, entries1, tr1))))"

definition set_rgb_many ::
  "usb_host \<Rightarrow> int list \<Rightarrow> int \<Rightarrow> int \<Rightarrow> int \<Rightarrow> (int \<times> ColorCalibration) list option \<Rightarrow> string option
     \<Rightarrow> DeviceEntry list \<Rightarrow> usb_call list
     \<Rightarrow> (exn + int \<times> string list) \<times> DeviceEntry list \<times> usb_call list" where
  "set_rgb_many hw device_ids r g b calibrations calibration_target entries tr =
     (let calibration_map = (case calibrations of None \<Rightarrow> [] | Some m \<Rightarrow> m) in
      case resolve_targets hw device_ids r g b entries tr of
        (Inl e, entries1, tr1) \<Rightarrow> (Inl e, entries1, tr1)
      | (Inr targets, entries1, tr1) \<Rightarrow>
          (case targets_loop hw targets r g b calibration_map calibration_target
                  build_apply_packet 0 [] tr1 of
             (res, tr2) \<Rightarrow> (res, entries1, tr2)))"

definition set_rgb ::
  "usb_host \<Rightarrow> int \<Rightarrow> int \<Rightarrow> int \<Rightarrow> int \<Rightarrow> DeviceEntry list \<Rightarrow> usb_call list
     \<Rightarrow> (exn + int) \<times> DeviceEntry list \<times> usb_call list" where
  "set_rgb hw device_id r g b entries tr =
     (case set_rgb_many hw [device_id] r g b None None entries tr of
        (Inl e, entries1, tr1) \<Rightarrow> (Inl e, entries1, tr1)
      | (Inr (applied, failures), entries1, tr1) \<Rightarrow>
          (case failures of
             [] \<Rightarrow> (Inr applied, entries1, tr1)
           | f # _ \<Rightarrow> (Inl (BackendError f), entries1, tr1)))"


section \<open>effects.py\<close>

definition EFFECT_OFF :: string where
  "EFFECT_OFF = ''off''"

definition EFFECT_RAINBOW :: string where
  "EFFECT_RAINBOW = ''rainbow''"

definition EFFECT_MODES :: "string list" where
  "EFFECT_MODES = [EFFECT_OFF, EFFECT_RAINBOW]"

text \<open>\<open>round(x)\<close> of a float: the nearest integer, a tie going to the even one.\<close>

definition py_round :: "real \<Rightarrow> int" where
  "py_round x =
     (let f = \<lfloor>x\<rfloor>; d = x - real_of_int f in
      if d < 1 / 2 then f else if 1 / 2 < d then f + 1 else if even f then f else f + 1)"

definition clamp_rgb :: "int \<Rightarrow> int" where
  "clamp_rgb v = max 0 (min 255 v)"

text \<open>\<open>colorsys.hsv_to_rgb\<close> belongs to the standard library; it is the parameter \<open>hsv\<close>.\<close>

definition compute_effect_color ::
  "(real \<Rightarrow> real \<Rightarrow> real \<Rightarrow> real \<times> real \<times> real) \<Rightarrow> string \<Rightarrow> int \<times> int \<times> int \<Rightarrow> real \<Rightarrow> real
     \<Rightarrow> int \<times> int \<times> int" where
  "compute_effect_color hsv mode base_rgb phase brightness =
     (if mode = EFFECT_RAINBOW then
        (let hue = frac (phase / (2 * pi)) in
         case hsv hue 1 (max (5 / 100) (min 1 brightness)) of
           (r, g, b) \<Rightarrow>
             (clamp_rgb (py_round (r * 255)), clamp_rgb (py_round (g * 255)), clamp_rgb (py_round (b * 255))))
      else base_rgb)"

definition next_phase :: "real \<Rightarrow> int \<Rightarrow> real" where
  "next_phase phase speed = phase + (2 / 100) * real_of_int (max 1 (min 20 speed))"


section \<open>main_window.py: the effect scheduler\<close>

record EffectSession =
  key :: string
  mode :: string
  speed :: int
  brightness :: int
  base_rgb :: "int \<times> int \<times> int"
  target_ids :: "int list"
  product_id :: "int option"
  phase :: real

text \<open>The part of \<open>MainWindow\<close> the scheduler reads and writes: \<open>_effect_sessions\<close>,
  \<open>_devices\<close>, the backend's \<open>_entries\<close>, the calibration store, and the trace of USB
  calls.\<close>

record MainWindow =
  effect_sessions :: "(string \<times> EffectSession) list"
  devices :: "DeviceInfo list"
  backend_entries :: "DeviceEntry list"
  calibration_store :: CalibrationStore
  usb_trace :: "usb_call list"

definition resolved_target_ids :: "DeviceInfo list \<Rightarrow> EffectSession \<Rightarrow> int list" where
  "resolved_target_ids devs session =
     (case EffectSession.product_id session of
        Some pid \<Rightarrow> map id' (filter (\<lambda>dev. DeviceInfo.product_id dev = pid) devs)
      | None \<Rightarrow> filter (\<lambda>device_id. List.member (map id' devs) device_id) (target_ids session))"

fun calibration_map_loop ::
  "CalibrationStore \<Rightarrow> DeviceInfo list \<Rightarrow> int list \<Rightarrow> (int \<times> ColorCalibration) list
     \<Rightarrow> (exn + (int \<times> ColorCalibration) list) \<times> CalibrationStore" where
  "calibration_map_loop store [] target_set calibration_map = (Inr calibration_map, store)"
| "calibration_map_loop store (dev # rest) target_set calibration_map =
     (if \<not> List.member target_set (id' dev) then calibration_map_loop store rest target_set calibration_map
      else (case get_for_device store dev of
              (Inl e, store1) \<Rightarrow> (Inl e, store1)
            | (Inr None, store1) \<Rightarrow> calibration_map_loop store1 rest target_set calibration_map
            | (Inr (Some calibration), store1) \<Rightarrow>
                calibration_map_loop store1 rest target_set
                  (AList.update (id' dev) calibration calibration_map)))"

definition build_calibration_map ::
  "CalibrationStore \<Rightarrow> DeviceInfo list \<Rightarrow> int list
     \<Rightarrow> (exn + (int \<times> ColorCalibration) list) \<times> CalibrationStore" where
  "build_calibration_map store devs tids =
     (let target_set = (if List.member tids 0 then map id' devs else tids)
      in calibration_map_loop store devs target_set [])"

text \<open>The body of the loop of \<open>_effect_tick\<close> for one session key. An exception that the
  body does not catch ends the tick: it is the first component of the result.\<close>

definition tick_session ::
  "usb_host \<Rightarrow> (real \<Rightarrow> real \<Rightarrow> real \<Rightarrow> real \<times> real \<times> real) \<Rightarrow> string \<Rightarrow> MainWindow
     \<Rightarrow> exn option \<times> MainWindow" where
  "tick_session hw hsv session_key win =
     (case map_of (effect_sessions win) session_key of
        None \<Rightarrow> (None, win)
      | Some session \<Rightarrow>
          if mode session = EFFECT_OFF
          then (None, win\<lparr>effect_sessions := AList.delete session_key (effect_sessions win)\<rparr>)
          else (let tids = resolved_target_ids (devices win) session in
                if tids = [] then (None, win)
                else (case compute_effect_color hsv (mode session) (base_rgb session) (phase session)
                             (real_of_int (brightness session) / 100) of
                        (out_r, out_g, out_b) \<Rightarrow>
                  (case build_calibration_map (calibration_store win) (devices win) tids of
                     (Inl e, store1) \<Rightarrow> (Some e, win\<lparr>calibration_store := store1\<rparr>)
                   | (Inr calibration_map, store1) \<Rightarrow>
                       (case set_rgb_many hw tids out_r out_g out_b (Some calibration_map) None
                               (backend_entries win) (usb_trace win) of
                          (res, entries1, tr1) \<Rightarrow>
                            (let win1 = win\<lparr>calibration_store := store1,
                                            backend_entries := entries1, usb_trace := tr1\<rparr> in
                             case res of
                               Inl (BackendError msg) \<Rightarrow> (None, win1)
                             | Inl e \<Rightarrow> (Some e, win1)
                             | Inr _ \<Rightarrow>
                                 (None,
                                  win1\<lparr>effect_sessions :=
                                    AList.update session_key
                                      (session\<lparr>phase := next_phase (phase session) (speed session)\<rparr>)
                                      (effect_sessions win1)\<rparr>)))))))"

fun tick_loop ::
  "usb_host \<Rightarrow> (real \<Rightarrow> real \<Rightarrow> real \<Rightarrow> real \<times> real \<times> real) \<Rightarrow> string list \<Rightarrow> MainWindow
     \<Rightarrow> exn option \<times> MainWindow" where
  "tick_loop hw hsv [] win = (None, win)"
| "tick_loop hw hsv (session_key # rest) win =
     (case tick_session hw hsv session_key win of
        (Some e, win1) \<Rightarrow> (Some e, win1)
      | (None, win1) \<Rightarrow> tick_loop hw hsv rest win1)"

definition effect_tick ::
  "usb_host \<Rightarrow> (real \<Rightarrow> real \<Rightarrow> real \<Rightarrow> real \<times> real \<times> real) \<Rightarrow> MainWindow \<Rightarrow> exn option \<times> MainWindow" where
  "effect_tick hw hsv win =
     (if effect_sessions win = [] \<or> devices win = [] then (None, win)
      else tick_loop hw hsv (map fst (effect_sessions win)) win)"

definition stop_all_effects :: "MainWindow \<Rightarrow> MainWindow" where
  "stop_all_effects win = win\<lparr>effect_sessions := []\<rparr>"


section \<open>Notions used in the statements\<close>

definition in_range :: "int \<Rightarrow> bool" where
  "in_range v = (0 \<le> v \<and> v \<le> 255)"

definition rgb_in_range :: "int \<times> int \<times> int \<Rightarrow> bool" where
  "rgb_in_range c = (in_range (fst c) \<and> in_range (fst (snd c)) \<and> in_range (snd (snd c)))"


text \<open>The squared distance, an integer: comparing distances is comparing their squares.\<close>

definition sq_distance :: "int \<Rightarrow> int \<Rightarrow> int \<Rightarrow> int \<times> int \<times> int \<Rightarrow> int" where
  "sq_distance r g b rgb = (r - fst rgb)\<^sup>2 + (g - fst (snd rgb))\<^sup>2 + (b - snd (snd rgb))\<^sup>2"

text \<open>\<open>n\<close> names the first entry of the palette \<open>ps\<close> at minimal distance from \<open>(r, g, b)\<close>:
  every entry before it is strictly farther, every entry after it is at least as far.\<close>

definition first_minimum ::
  "int \<Rightarrow> int \<Rightarrow> int \<Rightarrow> (string \<times> int \<times> int \<times> int) list \<Rightarrow> string \<Rightarrow> bool" where
  "first_minimum r g b ps n =
     (\<exists>pre rgb post. ps = pre @ (n, rgb) # post \<and>
        (\<forall>p\<in>set pre. distance_to r g b rgb < distance_to r g b (snd p)) \<and>
        (\<forall>p\<in>set post. distance_to r g b rgb \<le> distance_to r g b (snd p)))"

text \<open>A calibration with the single offset \<open>Red: (+5, 0, -3)\<close>.\<close>

definition cal_red :: ColorCalibration where
  "cal_red = ColorCalibration_default\<lparr>target_offsets := Some [(''Red'', \<lparr>red = 5, green = 0, blue = -3\<rparr>)]\<rparr>"

text \<open>The calibrations the round trip is stated for: the order is a permutation of the
  channels, and the offsets have distinct keys, all of them palette names.\<close>

definition is_permutation_of_channels :: "string \<times> string \<times> string \<Rightarrow> bool" where
  "is_permutation_of_channels ord =
     (distinct [fst ord, fst (snd ord), snd (snd ord)] \<and>
      List.member CHANNELS (fst ord) \<and> List.member CHANNELS (fst (snd ord)) \<and>
      List.member CHANNELS (snd (snd ord)))"

definition valid_offsets :: "(string \<times> ColorOffset) list \<Rightarrow> bool" where
  "valid_offsets d =
     (distinct (map fst d) \<and> list_all (\<lambda>k. map_of CALIBRATION_COLORS k \<noteq> None) (map fst d))"

text \<open>Host conversions that reject every string, for evaluation.\<close>

definition py0 :: py_builtins where
  "py0 = \<lparr>int_of_str = (\<lambda>s. None), float_of_str = (\<lambda>s. None), str_of_other = (\<lambda>v. ''?'')\<rparr>"

definition cal_bgr :: ColorCalibration where
  "cal_bgr = \<lparr>order = (''B'', ''G'', ''R''), gain_r = 3 / 2, gain_g = - 2, gain_b = 0,
              target_offsets = Some [(''Pink'', \<lparr>red = - 300, green = 7, blue = 0\<rparr>),
                                     (''Red'', \<lparr>red = 5, green = 0, blue = - 3\<rparr>)]\<rparr>"

text \<open>A joystick on bus 1, address 5, and a store that holds a calibration for it under
  the legacy key only.\<close>

definition dev1 :: DeviceInfo where
  "dev1 = \<lparr>id' = 1, name = ''X-56 Joystick'', bus = 1, address = 5, product_id = 0x2221\<rparr>"

definition legacy_store :: CalibrationStore where
  "legacy_store = \<lparr>profiles = [(''2221:1:5'', cal_red)], file_payload = None, writable = True\<rparr>"

text \<open>Hosts and packets for evaluation. \<open>red_packet\<close> is the colour packet of
  \<open>(255, 0, 0)\<close>. On \<open>host_ok\<close> no kernel driver is active and every call succeeds; on
  \<open>host_stall\<close> every control transfer fails, its text numbering the transfers made so
  far; on \<open>host_pipe\<close> the apply transfer raises a pipe error (errno 32).\<close>

definition red_packet :: "int list" where
  "red_packet = [0x09, 0x00, 0x03, 255, 0, 0] @ replicate 58 0"

fun is_transfer :: "usb_call \<Rightarrow> bool" where
  "is_transfer (CtrlTransfer dev rt rq wvalue windex data timeout) = True"
| "is_transfer c = False"

fun windex_of :: "usb_call \<Rightarrow> int" where
  "windex_of (CtrlTransfer dev rt rq wvalue windex data timeout) = windex"
| "windex_of c = 0"

fun wvalue_of :: "usb_call \<Rightarrow> int" where
  "wvalue_of (CtrlTransfer dev rt rq wvalue windex data timeout) = wvalue"
| "wvalue_of c = 0"

definition host_ok :: usb_host where
  "host_ok = \<lparr>find_reply = (\<lambda>tr. Inr []),
              kernel_active_reply = (\<lambda>tr dev iface. Inr False),
              call_reply = (\<lambda>tr c. None)\<rparr>"

definition host_stall :: usb_host where
  "host_stall = \<lparr>find_reply = (\<lambda>tr. Inr []),
                 kernel_active_reply = (\<lambda>tr dev iface. Inr False),
                 call_reply = (\<lambda>tr c. if is_transfer c
                    then Some (UsbError None (''stall '' @ [''0123'' ! length (filter is_transfer tr)]))
                    else None)\<rparr>"

definition host_pipe :: usb_host where
  "host_pipe = \<lparr>find_reply = (\<lambda>tr. Inr []),
                kernel_active_reply = (\<lambda>tr dev iface. Inr True),
                call_reply = (\<lambda>tr c. if is_transfer c \<and> wvalue_of c = WVALUE_APPLY
                    then Some (UsbError (Some 32) ''[Errno 32] Pipe error'')
                    else None)\<rparr>"

text \<open>The devices the backend knows when \<open>set_rgb_many\<close> selects its targets: its
  \<open>_entries\<close>, or, when that list is empty, what \<open>refresh\<close> leaves there.\<close>

definition known_entries :: "usb_host \<Rightarrow> DeviceEntry list \<Rightarrow> usb_call list \<Rightarrow> DeviceEntry list" where
  "known_entries hw entries tr = (if entries = [] then fst (snd (refresh hw entries tr)) else entries)"

text \<open>The calls of a trace that address a device: all but the enumeration of the bus.\<close>

fun is_device_call :: "usb_call \<Rightarrow> bool" where
  "is_device_call (Find vendor) = False"
| "is_device_call c = True"

definition device_calls :: "usb_call list \<Rightarrow> usb_call list" where
  "device_calls tr = filter is_device_call tr"

text \<open>The outcome of the transfer of each target in turn, every transfer starting from
  the trace its predecessor left: \<open>None\<close> when \<open>_set_rgb_single\<close> returned, the exception
  otherwise. What a failed target adds to \<open>failures\<close> is \<open>reported\<close>.\<close>

fun device_outcomes ::
  "usb_host \<Rightarrow> DeviceEntry list \<Rightarrow> int \<Rightarrow> int \<Rightarrow> int \<Rightarrow> (int \<times> ColorCalibration) list \<Rightarrow> string option
     \<Rightarrow> int list \<Rightarrow> usb_call list \<Rightarrow> exn option list" where
  "device_outcomes hw [] r g b calibration_map calibration_target apply_packet tr = []"
| "device_outcomes hw (entry # rest) r g b calibration_map calibration_target apply_packet tr =
     (case calibrated_rgb calibration_map calibration_target entry r g b of
        (out_r, out_g, out_b) \<Rightarrow>
          (case build_rgb_packet out_r out_g out_b of
             Inl e \<Rightarrow> [Some e]
           | Inr rgb_packet \<Rightarrow>
               (case set_rgb_single hw (handle (device entry)) rgb_packet apply_packet tr of
                  (res, tr1) \<Rightarrow>
                    res # device_outcomes hw rest r g b calibration_map calibration_target apply_packet tr1)))"

fun reported :: "DeviceEntry \<Rightarrow> exn option \<Rightarrow> string list" where
  "reported entry (Some (BackendError msg)) = [failure_text entry msg]"
| "reported entry outcome = []"

text \<open>Two enumerated devices, and a host on which every control transfer to the second
  one fails.\<close>

definition dev2 :: DeviceInfo where
  "dev2 = \<lparr>id' = 2, name = ''X-56 Throttle'', bus = 1, address = 6, product_id = 0xA221\<rparr>"

definition entries2 :: "DeviceEntry list" where
  "entries2 =
     [\<lparr>info = dev1, device = \<lparr>handle = 1, idProduct = 0x2221, bus = 1, address = 5\<rparr>\<rparr>,
      \<lparr>info = dev2, device = \<lparr>handle = 2, idProduct = 0xA221, bus = 1, address = 6\<rparr>\<rparr>]"

fun device_of :: "usb_call \<Rightarrow> nat" where
  "device_of (CtrlTransfer dev rt rq wvalue windex data timeout) = dev"
| "device_of c = 0"

definition host_second_fails :: usb_host where
  "host_second_fails =
     \<lparr>find_reply = (\<lambda>tr. Inr [\<lparr>handle = 2, idProduct = 0xA221, bus = 1, address = 6\<rparr>,
                                \<lparr>handle = 3, idProduct = 0x1234, bus = 1, address = 2\<rparr>,
                                \<lparr>handle = 1, idProduct = 0x2221, bus = 1, address = 5\<rparr>]),
      kernel_active_reply = (\<lambda>tr dev iface. Inr False),
      call_reply = (\<lambda>tr c. if is_transfer c \<and> device_of c = 2
                             then Some (UsbError None ''boom'') else None)\<rparr>"

text \<open>A session after one advance of its phase.\<close>

definition advanced :: "EffectSession \<Rightarrow> EffectSession" where
  "advanced session = session\<lparr>phase := next_phase (phase session) (speed session)\<rparr>"

text \<open>Inputs for evaluation: a conversion to RGB that puts the value on red, a rainbow
  session on the devices 1 and 2, a rainbow session on every device of a product that is
  not connected, a window that holds both, and the same window with a backend whose
  entries are stale (its only device has another id).\<close>

definition hsv_red :: "real \<Rightarrow> real \<Rightarrow> real \<Rightarrow> real \<times> real \<times> real" where
  "hsv_red h s v = (v, 0, 0)"

definition manual_session :: EffectSession where
  "manual_session = \<lparr>key = ''manual'', mode = ''rainbow'', speed = 3, brightness = 100,
                      base_rgb = (0, 0, 0), target_ids = [1, 2], product_id = None, phase = 0\<rparr>"

definition absent_session :: EffectSession where
  "absent_session = \<lparr>key = ''profile:4660'', mode = ''rainbow'', speed = 5, brightness = 50,
                      base_rgb = (0, 0, 0), target_ids = [], product_id = Some 0x1234, phase = 1\<rparr>"

definition empty_store :: CalibrationStore where
  "empty_store = \<lparr>profiles = [], file_payload = None, writable = True\<rparr>"

definition win0 :: MainWindow where
  "win0 = \<lparr>effect_sessions = [(''manual'', manual_session), (''profile:4660'', absent_session)],
           devices = [dev1, dev2], backend_entries = entries2,
           calibration_store = empty_store, usb_trace = []\<rparr>"

definition win_stale :: MainWindow where
  "win_stale = win0\<lparr>backend_entries :=
      [\<lparr>info = dev1\<lparr>id' := 9\<rparr>, device = \<lparr>handle = 1, idProduct = 0x2221, bus = 1, address = 5\<rparr>\<rparr>]\<rparr>"


section \<open>Calibration: range of the corrected colour\<close>

lemma apply_keeps_range:
  "rgb_in_range (r, g, b) \<Longrightarrow> rgb_in_range (ColorCalibration_apply self r g b t)"
  by (auto simp: ColorCalibration_apply_def rgb_in_range_def in_range_def Let_def split: option.splits)



lemma distance_less_iff:
  "distance_to r g b p < distance_to r g b q \<longleftrightarrow> sq_distance r g b p < sq_distance r g b q"
  by (simp only: distance_to_def sq_distance_def real_sqrt_less_iff of_int_less_iff)

lemma distance_le_iff:
  "distance_to r g b p \<le> distance_to r g b q \<longleftrightarrow> sq_distance r g b p \<le> sq_distance r g b q"
  by (simp only: distance_to_def sq_distance_def real_sqrt_le_iff of_int_le_iff)

lemmas closest_eval =
  closest_target_name_def CALIBRATION_COLORS_def Let_def distance_less_iff sq_distance_def

lemma closest_red: "closest_target_name 255 0 0 = ''Red''"
  by (simp add: closest_eval)

lemma closest_tie: "closest_target_name 0 12 9 = ''Orange''"
  by (simp add: closest_eval)






section \<open>Calibration: the nearest palette target\<close>

lemma closest_loop_spec:
  "(closest_loop r g b ps bn bd = bn \<and> (\<forall>p\<in>set ps. \<not> less_than_best (distance_to r g b (snd p)) bd)) \<or>
   (\<exists>pre rgb post. ps = pre @ (closest_loop r g b ps bn bd, rgb) # post \<and>
       less_than_best (distance_to r g b rgb) bd \<and>
       (\<forall>p\<in>set pre. distance_to r g b rgb < distance_to r g b (snd p)) \<and>
       (\<forall>p\<in>set post. distance_to r g b rgb \<le> distance_to r g b (snd p)))"
  (is "?keep ps bn bd \<or> ?found ps bn bd")
proof (induction ps arbitrary: bn bd)
  case Nil
  then show ?case by simp
next
  case (Cons p ps)
  obtain name rgb where p: "p = (name, rgb)" by (cases p)
  let ?d = "distance_to r g b rgb"
  show ?case
  proof (cases "less_than_best ?d bd")
    case True
    then have res: "closest_loop r g b (p # ps) bn bd = closest_loop r g b ps name (Some ?d)"
      by (simp add: p)
    from Cons.IH[of name "Some ?d"] have "?found (p # ps) bn bd"
    proof
      assume a: "?keep ps name (Some ?d)"
      have 1: "p # ps = [] @ (closest_loop r g b (p # ps) bn bd, rgb) # ps"
        using a res p by simp
      have 2: "\<forall>q\<in>set ps. ?d \<le> distance_to r g b (snd q)"
        using a by (auto simp: not_less)
      have 3: "\<forall>q\<in>set []. ?d < distance_to r g b (snd q)" by simp
      from 1 True 3 2 show ?thesis by (intro exI conjI)
    next
      assume "?found ps name (Some ?d)"
      then obtain pre rgb' post where
        ps: "ps = pre @ (closest_loop r g b ps name (Some ?d), rgb') # post" and
        lt: "distance_to r g b rgb' < ?d" and
        pre: "\<forall>q\<in>set pre. distance_to r g b rgb' < distance_to r g b (snd q)" and
        post: "\<forall>q\<in>set post. distance_to r g b rgb' \<le> distance_to r g b (snd q)"
        by auto
      have 1: "p # ps = (p # pre) @ (closest_loop r g b (p # ps) bn bd, rgb') # post"
        using ps res by simp
      have 2: "less_than_best (distance_to r g b rgb') bd"
        using True lt by (cases bd) auto
      have 3: "\<forall>q\<in>set (p # pre). distance_to r g b rgb' < distance_to r g b (snd q)"
        using pre lt p by simp
      from 1 2 3 post show ?thesis by (intro exI conjI)
    qed
    then show ?thesis ..
  next
    case False
    then have res: "closest_loop r g b (p # ps) bn bd = closest_loop r g b ps bn bd"
      by (simp add: p)
    from False obtain best where bd: "bd = Some best" and ge: "best \<le> ?d"
      by (cases bd) auto
    from Cons.IH[of bn bd] show ?thesis
    proof
      assume "?keep ps bn bd"
      then have "?keep (p # ps) bn bd" using res False p by simp
      then show ?thesis ..
    next
      assume "?found ps bn bd"
      then obtain pre rgb' post where
        ps: "ps = pre @ (closest_loop r g b ps bn bd, rgb') # post" and
        lt: "less_than_best (distance_to r g b rgb') bd" and
        pre: "\<forall>q\<in>set pre. distance_to r g b rgb' < distance_to r g b (snd q)" and
        post: "\<forall>q\<in>set post. distance_to r g b rgb' \<le> distance_to r g b (snd q)"
        by auto
      have 1: "p # ps = (p # pre) @ (closest_loop r g b (p # ps) bn bd, rgb') # post"
        using ps res by simp
      have 3: "\<forall>q\<in>set (p # pre). distance_to r g b rgb' < distance_to r g b (snd q)"
        using pre lt ge p bd by auto
      from 1 lt 3 post have "?found (p # ps) bn bd" by (intro exI conjI)
      then show ?thesis ..
    qed
  qed
qed

lemma closest_is_first_minimum:
  "first_minimum r g b CALIBRATION_COLORS (closest_target_name r g b)"
proof -
  have "(''Red'', (255, 0, 0)) \<in> set CALIBRATION_COLORS"
    by (simp add: CALIBRATION_COLORS_def)
  then have ne: "\<not> (\<forall>p\<in>set CALIBRATION_COLORS. \<not> less_than_best (distance_to r g b (snd p)) None)"
    by (metis less_than_best.simps(1))
  from closest_loop_spec[of r g b CALIBRATION_COLORS "''White''" None] ne
  show ?thesis
    unfolding first_minimum_def closest_target_name_def by blast
qed

lemma closest_exact_all:
  "list_all (\<lambda>(n, rgb). closest_target_name (fst rgb) (fst (snd rgb)) (snd (snd rgb)) = n) CALIBRATION_COLORS"
  by (simp add: closest_eval)

lemma closest_exact:
  "(n, rgb) \<in> set CALIBRATION_COLORS \<Longrightarrow> closest_target_name (fst rgb) (fst (snd rgb)) (snd (snd rgb)) = n"
  using closest_exact_all unfolding list_all_iff by blast


text \<open>
  C8. \<open>closest_target_name\<close> returns the name of the first entry, in the order of the
  palette Red, Green, Blue, Orange, Purple, Pink, White, whose Euclidean distance to the
  input is minimal: entries before it are strictly farther, entries after it at least as
  far. For the RGB value of a palette entry it returns that entry's name.
\<close>

theorem C8_closest_target:
  "map fst CALIBRATION_COLORS = [''Red'', ''Green'', ''Blue'', ''Orange'', ''Purple'', ''Pink'', ''White''] \<and>
   first_minimum r g b CALIBRATION_COLORS (closest_target_name r g b) \<and>
   (\<forall>n rgb. (n, rgb) \<in> set CALIBRATION_COLORS \<longrightarrow>
        closest_target_name (fst rgb) (fst (snd rgb)) (snd (snd rgb)) = n)"
  using closest_is_first_minimum closest_exact by (simp add: CALIBRATION_COLORS_def)

theorem C8_closest_target_witness:
  "(''Red'', (255, 0, 0)) \<in> set CALIBRATION_COLORS \<and>
   closest_target_name 255 0 0 = ''Red'' \<and>
   sq_distance 0 12 9 (190, 20, 0) = sq_distance 0 12 9 (190, 4, 18) \<and>
   first_minimum 0 12 9 CALIBRATION_COLORS ''Orange''"
proof -
  have 1: "(''Red'', (255, 0, 0)) \<in> set CALIBRATION_COLORS" by (simp add: CALIBRATION_COLORS_def)
  have 2: "closest_target_name 255 0 0 = ''Red''"
    using 1 C8_closest_target[of 255 0 0] by fastforce
  have 3: "first_minimum 0 12 9 CALIBRATION_COLORS ''Orange''"
    using C8_closest_target[of 0 12 9] closest_tie by simp
  have 4: "sq_distance 0 12 9 (190, 20, 0) = sq_distance 0 12 9 (190, 4, 18)"
    by (simp add: sq_distance_def)
  from 1 2 3 4 show ?thesis by simp
qed


section \<open>Calibration: the persisted form\<close>

lemma offset_roundtrip: "ColorOffset_from_json py (ColorOffset_to_json v) = v"
  by (simp add: ColorOffset_from_json_def ColorOffset_to_json_def dict_get_def to_int_def py_int_def)

lemma update_fresh: "k \<notin> fst ` set al \<Longrightarrow> AList.update k v al = al @ [(k, v)]"
  by (induction al) auto

lemma parse_offsets_loop_roundtrip:
  "distinct (map fst (acc @ d)) \<Longrightarrow> list_all (\<lambda>k. map_of CALIBRATION_COLORS k \<noteq> None) (map fst d) \<Longrightarrow>
   parse_offsets_loop py (map (\<lambda>(k, v). (k, JDict (ColorOffset_to_json v))) d) acc = acc @ d"
proof (induction d arbitrary: acc)
  case Nil
  then show ?case by simp
next
  case (Cons kv d)
  obtain k v where kv: "kv = (k, v)" by (cases kv)
  have fresh: "k \<notin> fst ` set acc" using Cons.prems(1) kv by auto
  have d1: "distinct (map fst ((acc @ [(k, v)]) @ d))" using Cons.prems(1) kv by auto
  have d2: "list_all (\<lambda>k. map_of CALIBRATION_COLORS k \<noteq> None) (map fst d)" using Cons.prems(2) by simp
  have known: "(map_of CALIBRATION_COLORS k = None) = False" using Cons.prems(2) kv by simp
  have "parse_offsets_loop py (map (\<lambda>(k, v). (k, JDict (ColorOffset_to_json v))) (kv # d)) acc
        = parse_offsets_loop py (map (\<lambda>(k, v). (k, JDict (ColorOffset_to_json v))) d) (acc @ [(k, v)])"
    by (simp only: kv list.map prod.case parse_offsets_loop.simps json.case known if_False
          offset_roundtrip update_fresh[OF fresh])
  also have "\<dots> = (acc @ [(k, v)]) @ d" by (rule Cons.IH[OF d1 d2])
  finally show ?case by (simp add: kv)
qed

lemma upper_channel: "List.member CHANNELS s \<Longrightarrow> upper s = s"
  by (auto simp: CHANNELS_def upper_def upper_char_def)

lemma parse_order_roundtrip:
  "is_permutation_of_channels ord \<Longrightarrow>
   parse_order py (JList [JStr (fst ord), JStr (fst (snd ord)), JStr (snd (snd ord))]) = ord"
  by (simp add: is_permutation_of_channels_def parse_order_def py_str_def upper_channel)


lemma from_json_to_json:
  "is_permutation_of_channels (order c) \<Longrightarrow> valid_offsets (offsets_or_empty c) \<Longrightarrow>
   ColorCalibration_from_json py (ColorCalibration_to_json c)
     = Inr (c\<lparr>target_offsets := Some (offsets_or_empty c)\<rparr>)"
  using parse_offsets_loop_roundtrip[of "[]" "offsets_or_empty c" py]
  by (simp add: ColorCalibration_from_json_def ColorCalibration_to_json_def dict_get_def
        parse_order_roundtrip py_float_def parse_offsets_def valid_offsets_def)

text \<open>
  C7 (as amended). For every calibration whose order is a permutation of R, G, B, whose
  gains are arbitrary and whose offsets, if any, are keyed by distinct palette names with
  arbitrary integer offsets, \<open>from_json (to_json c)\<close> returns \<open>c\<close> with \<open>target_offsets\<close>
  replaced by the dictionary of its offsets. So it returns \<open>c\<close> itself when
  \<open>target_offsets\<close> is a dictionary; when \<open>target_offsets\<close> is \<open>None\<close>, as in the default
  calibration, it returns \<open>c\<close> with the empty dictionary instead, which is not equal to
  \<open>c\<close>.
\<close>

theorem C7_json_roundtrip:
  assumes "is_permutation_of_channels (order c)"
    and "valid_offsets (offsets_or_empty c)"
  shows "ColorCalibration_from_json py (ColorCalibration_to_json c)
           = Inr (c\<lparr>target_offsets := Some (offsets_or_empty c)\<rparr>) \<and>
         (target_offsets c \<noteq> None \<longrightarrow>
            ColorCalibration_from_json py (ColorCalibration_to_json c) = Inr c) \<and>
         (target_offsets c = None \<longrightarrow>
            ColorCalibration_from_json py (ColorCalibration_to_json c)
              = Inr (c\<lparr>target_offsets := Some []\<rparr>) \<and>
            ColorCalibration_from_json py (ColorCalibration_to_json c) \<noteq> Inr c)"
proof -
  note rt = from_json_to_json[OF assms, of py]
  have some: "ColorCalibration_from_json py (ColorCalibration_to_json c) = Inr c"
    if "target_offsets c \<noteq> None"
  proof -
    from that obtain d where d: "target_offsets c = Some d" by auto
    then have "offsets_or_empty c = d" by (simp add: offsets_or_empty_def)
    moreover have "c\<lparr>target_offsets := Some d\<rparr> = c" using d by simp
    ultimately show ?thesis using rt by simp
  qed
  have none: "ColorCalibration_from_json py (ColorCalibration_to_json c)
                = Inr (c\<lparr>target_offsets := Some []\<rparr>) \<and>
              ColorCalibration_from_json py (ColorCalibration_to_json c) \<noteq> Inr c"
    if n: "target_offsets c = None"
  proof -
    have e: "offsets_or_empty c = []" using n by (simp add: offsets_or_empty_def)
    have "target_offsets (c\<lparr>target_offsets := Some []\<rparr>) \<noteq> target_offsets c" using n by simp
    then have "c\<lparr>target_offsets := Some []\<rparr> \<noteq> c" by metis
    then show ?thesis using rt e by simp
  qed
  from rt some none show ?thesis by blast
qed

theorem C7_json_roundtrip_witness:
  "is_permutation_of_channels (order cal_bgr) \<and>
   valid_offsets (offsets_or_empty cal_bgr) \<and>
   target_offsets cal_bgr \<noteq> None \<and>
   ColorCalibration_from_json py0 (ColorCalibration_to_json cal_bgr) = Inr cal_bgr \<and>
   is_permutation_of_channels (order ColorCalibration_default) \<and>
   valid_offsets (offsets_or_empty ColorCalibration_default) \<and>
   target_offsets ColorCalibration_default = None \<and>
   ColorCalibration_from_json py0 (ColorCalibration_to_json ColorCalibration_default)
     = Inr (ColorCalibration_default\<lparr>target_offsets := Some []\<rparr>)"
proof -
  have 1: "is_permutation_of_channels (order cal_bgr)"
    by (simp add: is_permutation_of_channels_def cal_bgr_def CHANNELS_def)
  have 2: "valid_offsets (offsets_or_empty cal_bgr)"
    by (simp add: valid_offsets_def offsets_or_empty_def cal_bgr_def CALIBRATION_COLORS_def)
  have 3: "target_offsets cal_bgr \<noteq> None" by (simp add: cal_bgr_def)
  have 4: "is_permutation_of_channels (order ColorCalibration_default)"
    by (simp add: is_permutation_of_channels_def ColorCalibration_default_def CHANNELS_def)
  have 5: "valid_offsets (offsets_or_empty ColorCalibration_default)"
    by (simp add: valid_offsets_def offsets_or_empty_def ColorCalibration_default_def)
  have 6: "target_offsets ColorCalibration_default = None" by (simp add: ColorCalibration_default_def)
  from C7_json_roundtrip[OF 1 2, of py0] C7_json_roundtrip[OF 4 5, of py0] 1 2 3 4 5 6
  show ?thesis by blast
qed

text \<open>The claim as stated fails: the default calibration, whose \<open>target_offsets\<close> is
  \<open>None\<close>, does not come back equal.\<close>

theorem C7_counterexample:
  "ColorCalibration_from_json py0 (ColorCalibration_to_json ColorCalibration_default)
     \<noteq> Inr ColorCalibration_default"
  by (simp add: ColorCalibration_from_json_def ColorCalibration_to_json_def dict_get_def
        ColorCalibration_default_def offsets_or_empty_def py_float_def)


section \<open>Calibration store: the legacy key\<close>

lemma key_not_legacy: "key_for_device d \<noteq> legacy_key_for_device d"
  by (simp add: key_for_device_def legacy_key_for_device_def)


lemma hex_2221: "hex_nat 8737 = ''2221''"
  by (simp add: hex_nat.simps[of 8737] hex_nat.simps[of 546] hex_nat.simps[of 34] hex_nat.simps[of 2])

lemma keys_dev1: "key_for_device dev1 = ''2221'' \<and> legacy_key_for_device dev1 = ''2221:1:5''"
  by (simp add: key_for_device_def legacy_key_for_device_def dev1_def format_04x_def zero_pad_def
        hex_2221 str_int_def str_nat.simps[of 1] str_nat.simps[of "Suc 0"] str_nat.simps[of 5])

text \<open>
  C2 (what the code does). When a calibration is stored under the legacy key only and the
  file can be written, \<open>get_for_device\<close> returns it and stores it under the plain key, and a
  second lookup returns it again from the plain key; but the entry under the legacy key is
  still in the store after both lookups.
\<close>

theorem C2_legacy_key_survives:
  assumes "map_of (profiles st) (key_for_device d) = None"
    and "map_of (profiles st) (legacy_key_for_device d) = Some c"
    and "writable st"
  shows "\<exists>st'. get_for_device st d = (Inr (Some c), st') \<and>
           map_of (profiles st') (key_for_device d) = Some c \<and>
           map_of (profiles st') (legacy_key_for_device d) = Some c \<and>
           get_for_device st' d = (Inr (Some c), st')"
  using assms key_not_legacy[of d]
  by (simp add: get_for_device_def save_def Let_def update_conv')

theorem C2_legacy_key_survives_witness:
  "map_of (profiles legacy_store) (key_for_device dev1) = None \<and>
   map_of (profiles legacy_store) (legacy_key_for_device dev1) = Some cal_red \<and>
   writable legacy_store \<and>
   (\<exists>st'. get_for_device legacy_store dev1 = (Inr (Some cal_red), st') \<and>
           map_of (profiles st') ''2221'' = Some cal_red \<and>
           map_of (profiles st') ''2221:1:5'' = Some cal_red \<and>
           get_for_device st' dev1 = (Inr (Some cal_red), st'))"
proof -
  have 1: "map_of (profiles legacy_store) (key_for_device dev1) = None"
    by (simp add: keys_dev1 legacy_store_def)
  have 2: "map_of (profiles legacy_store) (legacy_key_for_device dev1) = Some cal_red"
    by (simp add: keys_dev1 legacy_store_def)
  have 3: "writable legacy_store" by (simp add: legacy_store_def)
  from C2_legacy_key_survives[OF 1 2 3] 1 2 3 show ?thesis by (simp add: keys_dev1)
qed


section \<open>Transfer engine: one attempt\<close>

lemma transfer_failed_BackendError:
  "transfer_failed e =
     BackendError (if strip (str_exc e) = [] then ''USB transfer failed.''
                   else ''USB transfer failed ('' @ strip (str_exc e) @ '').'')"
  by (simp add: transfer_failed_def Let_def)

lemma send_result:
  "fst (send_rgb_with_setup hw dev ifs w rp ap tr) = None \<or>
   (\<exists>msg. fst (send_rgb_with_setup hw dev ifs w rp ap tr) = Some (BackendError msg))"
  by (cases "transfer_body hw dev ifs w rp ap tr")
     (auto simp: send_rgb_with_setup_def transfer_failed_BackendError split: option.splits)

lemma str_contains_iff:
  "str_contains needle hay \<longleftrightarrow> (\<exists>pre post. hay = pre @ needle @ post)"
proof (induction hay)
  case Nil
  then show ?case by simp
next
  case (Cons c cs)
  have "(\<exists>pre post. c # cs = pre @ needle @ post) \<longleftrightarrow>
        (\<exists>post. c # cs = needle @ post) \<or> (\<exists>pre post. cs = pre @ needle @ post)"
    by (auto simp: Cons_eq_append_conv)
  then show ?case using Cons.IH by (simp add: prefix_def)
qed

lemma is_pipe_error_iff:
  "is_pipe_error e \<longleftrightarrow>
     errno e = Some 32 \<or> (\<exists>pre post. lower (str_exc e) = pre @ ''pipe error'' @ post)"
  by (simp add: is_pipe_error_def str_contains_iff)

lemma send_after_claim:
  assumes "claim_interfaces hw dev ifs [] (tr @ [SetConfiguration dev]) = (r, attached, tr2)"
  shows "fst (send_rgb_with_setup hw dev ifs w rp ap tr) =
     (case r of
        Some e \<Rightarrow> Some (transfer_failed e)
      | None \<Rightarrow>
         (case call_reply hw tr2 (CtrlTransfer dev REQUEST_TYPE_SET_REPORT REQUEST_SET_REPORT
                                    WVALUE_RGB w rp USB_TIMEOUT_MS) of
            Some e \<Rightarrow> Some (transfer_failed e)
          | None \<Rightarrow>
             (case call_reply hw
                     (tr2 @ [CtrlTransfer dev REQUEST_TYPE_SET_REPORT REQUEST_SET_REPORT
                               WVALUE_RGB w rp USB_TIMEOUT_MS])
                     (CtrlTransfer dev REQUEST_TYPE_SET_REPORT REQUEST_SET_REPORT
                        WVALUE_APPLY w ap USB_TIMEOUT_MS) of
                Some e \<Rightarrow> if is_pipe_error e then None else Some (transfer_failed e)
              | None \<Rightarrow> None)))"
  using assms
  by (simp add: send_rgb_with_setup_def transfer_body_def do_call_def split: option.splits)


text \<open>
  C5. In one attempt, once the interfaces are claimed: an error of the first (colour)
  transfer, pipe error or not, makes the attempt fail; an error of the second (apply)
  transfer is swallowed when it is a pipe error (errno 32, or the text of the error,
  lower-cased, contains "pipe error") and makes the attempt fail otherwise. A failed
  attempt raises \<open>BackendError\<close> whose message wraps the stripped text of the transport
  error.
\<close>

theorem C5_pipe_error_second_transfer:
  assumes "claim_interfaces hw dev ifs [] (tr @ [SetConfiguration dev]) = (None, attached, tr2)"
  shows "let color = CtrlTransfer dev REQUEST_TYPE_SET_REPORT REQUEST_SET_REPORT WVALUE_RGB w rp USB_TIMEOUT_MS;
             latch = CtrlTransfer dev REQUEST_TYPE_SET_REPORT REQUEST_SET_REPORT WVALUE_APPLY w ap USB_TIMEOUT_MS;
             result = fst (send_rgb_with_setup hw dev ifs w rp ap tr)
         in (\<forall>e. call_reply hw tr2 color = Some e \<longrightarrow> result = Some (transfer_failed e)) \<and>
            (\<forall>e. call_reply hw tr2 color = None \<and> call_reply hw (tr2 @ [color]) latch = Some e \<and>
                   is_pipe_error e \<longrightarrow> result = None) \<and>
            (\<forall>e. call_reply hw tr2 color = None \<and> call_reply hw (tr2 @ [color]) latch = Some e \<and>
                   \<not> is_pipe_error e \<longrightarrow> result = Some (transfer_failed e)) \<and>
            (call_reply hw tr2 color = None \<and> call_reply hw (tr2 @ [color]) latch = None
                   \<longrightarrow> result = None) \<and>
            (\<forall>e. is_pipe_error e \<longleftrightarrow>
                   errno e = Some 32 \<or> (\<exists>pre post. lower (str_exc e) = pre @ ''pipe error'' @ post)) \<and>
            (\<forall>e. transfer_failed e =
                   BackendError (if strip (str_exc e) = [] then ''USB transfer failed.''
                                 else ''USB transfer failed ('' @ strip (str_exc e) @ '').''))"
proof -
  let ?color = "CtrlTransfer dev REQUEST_TYPE_SET_REPORT REQUEST_SET_REPORT WVALUE_RGB w rp USB_TIMEOUT_MS"
  let ?latch = "CtrlTransfer dev REQUEST_TYPE_SET_REPORT REQUEST_SET_REPORT WVALUE_APPLY w ap USB_TIMEOUT_MS"
  let ?result = "fst (send_rgb_with_setup hw dev ifs w rp ap tr)"
  note S = send_after_claim[OF assms, of w rp ap]
  have a: "\<forall>e. call_reply hw tr2 ?color = Some e \<longrightarrow> ?result = Some (transfer_failed e)"
    using S by simp
  have b: "\<forall>e. call_reply hw tr2 ?color = None \<and> call_reply hw (tr2 @ [?color]) ?latch = Some e \<and>
                is_pipe_error e \<longrightarrow> ?result = None"
    using S by simp
  have c: "\<forall>e. call_reply hw tr2 ?color = None \<and> call_reply hw (tr2 @ [?color]) ?latch = Some e \<and>
                \<not> is_pipe_error e \<longrightarrow> ?result = Some (transfer_failed e)"
    using S by simp
  have d: "call_reply hw tr2 ?color = None \<and> call_reply hw (tr2 @ [?color]) ?latch = None
                \<longrightarrow> ?result = None"
    using S by simp
  have e: "\<forall>e. is_pipe_error e \<longleftrightarrow>
             errno e = Some 32 \<or> (\<exists>pre post. lower (str_exc e) = pre @ ''pipe error'' @ post)"
    using is_pipe_error_iff by blast
  have f: "\<forall>e. transfer_failed e =
             BackendError (if strip (str_exc e) = [] then ''USB transfer failed.''
                           else ''USB transfer failed ('' @ strip (str_exc e) @ '').'')"
    using transfer_failed_BackendError by blast
  show ?thesis unfolding Let_def using a b c d e f by (intro conjI)
qed

lemma strip_stall: "strip ''stall 0'' = ''stall 0''"
  by (simp add: strip_def is_space_def)

theorem C5_pipe_error_second_transfer_witness:
  "claim_interfaces host_pipe 0 [2] [] ([] @ [SetConfiguration 0])
     = (None, [2], [SetConfiguration 0, IsKernelDriverActive 0 2, DetachKernelDriver 0 2, ClaimInterface 0 2]) \<and>
   is_pipe_error (UsbError (Some 32) ''[Errno 32] Pipe error'') \<and>
   fst (send_rgb_with_setup host_pipe 0 [2] 2 red_packet build_apply_packet []) = None \<and>
   claim_interfaces host_stall 0 [2] [] ([] @ [SetConfiguration 0])
     = (None, [], [SetConfiguration 0, IsKernelDriverActive 0 2, ClaimInterface 0 2]) \<and>
   fst (send_rgb_with_setup host_stall 0 [2] 2 red_packet build_apply_packet [])
     = Some (BackendError ''USB transfer failed (stall 0).'')"
proof -
  have 1: "claim_interfaces host_pipe 0 [2] [] ([] @ [SetConfiguration 0])
     = (None, [2], [SetConfiguration 0, IsKernelDriverActive 0 2, DetachKernelDriver 0 2, ClaimInterface 0 2])"
    by (simp add: host_pipe_def kernel_active_def do_call_def)
  have 2: "is_pipe_error (UsbError (Some 32) ''[Errno 32] Pipe error'')"
    by (simp add: is_pipe_error_def)
  have 3: "fst (send_rgb_with_setup host_pipe 0 [2] 2 red_packet build_apply_packet []) = None"
    using C5_pipe_error_second_transfer[OF 1, of 2 red_packet build_apply_packet] 2
    by (simp add: Let_def host_pipe_def WVALUE_APPLY_def WVALUE_RGB_def)
  have 4: "claim_interfaces host_stall 0 [2] [] ([] @ [SetConfiguration 0])
     = (None, [], [SetConfiguration 0, IsKernelDriverActive 0 2, ClaimInterface 0 2])"
    by (simp add: host_stall_def kernel_active_def do_call_def)
  have 5: "fst (send_rgb_with_setup host_stall 0 [2] 2 red_packet build_apply_packet [])
     = Some (BackendError ''USB transfer failed (stall 0).'')"
    using C5_pipe_error_second_transfer[OF 4, of 2 red_packet build_apply_packet]
    by (simp add: Let_def host_stall_def strip_stall)
  from 1 2 3 4 5 show ?thesis by simp
qed


section \<open>Transfer engine: the four attempts\<close>

lemma attempts_loop_step:
  "attempts_loop hw dev rp ap ((ifs, w) # rest) last_error tr =
     (case send_rgb_with_setup hw dev ifs w rp ap tr of
        (None, tr1) \<Rightarrow> (None, tr1)
      | (Some e, tr1) \<Rightarrow> attempts_loop hw dev rp ap rest (Some e) tr1)"
proof (cases "send_rgb_with_setup hw dev ifs w rp ap tr")
  case (Pair res tr1)
  with send_result[of hw dev ifs w rp ap tr] show ?thesis by auto
qed

lemma attempts_value:
  "attempts = [([2, 0], 0x0200), ([2, 0], 2), ([2], 0x0200), ([2], 2)]"
  by (simp add: attempts_def WINDEX_INTERFACE_2_def)

text \<open>
  C1 (as amended). \<open>_set_rgb_single\<close> makes at most four attempts, in the order
  \<open>([2,0], 0x0200)\<close>, \<open>([2,0], 2)\<close>, \<open>([2], 0x0200)\<close>, \<open>([2], 2)\<close>: the first and third use
  wIndex \<open>2 << 8 = 0x0200\<close>. Each attempt is one full run of \<open>_send_rgb_with_setup\<close>,
  starting from the trace the previous one left; the first attempt that succeeds ends the
  call, and when all four fail the error of the fourth is raised.
\<close>

theorem C1_attempts_in_order:
  "WINDEX_INTERFACE_2 = 0x0200 \<and>
   attempts = [([2, 0], 0x0200), ([2, 0], 2), ([2], 0x0200), ([2], 2)] \<and>
   set_rgb_single hw dev rp ap tr =
     (case send_rgb_with_setup hw dev [2, 0] 0x0200 rp ap tr of
        (None, t1) \<Rightarrow> (None, t1)
      | (Some e1, t1) \<Rightarrow>
      (case send_rgb_with_setup hw dev [2, 0] 2 rp ap t1 of
         (None, t2) \<Rightarrow> (None, t2)
       | (Some e2, t2) \<Rightarrow>
       (case send_rgb_with_setup hw dev [2] 0x0200 rp ap t2 of
          (None, t3) \<Rightarrow> (None, t3)
        | (Some e3, t3) \<Rightarrow> send_rgb_with_setup hw dev [2] 2 rp ap t3)))"
proof -
  have "attempts_loop hw dev rp ap [] (Some e) t = (Some e, t)" for e t by simp
  then show ?thesis
    unfolding set_rgb_single_def attempts_value attempts_loop_step
    by (auto simp: WINDEX_INTERFACE_2_def split: prod.splits option.splits)
qed


lemmas transfer_eval =
  send_rgb_with_setup_def transfer_body_def do_call_def kernel_active_def transfer_failed_def
  strip_def is_space_def Let_def

lemma stall_run:
  "set_rgb_single host_stall 0 red_packet build_apply_packet [] =
     (Some (BackendError ''USB transfer failed (stall 3).''),
      [SetConfiguration 0, IsKernelDriverActive 0 2, ClaimInterface 0 2,
       IsKernelDriverActive 0 0, ClaimInterface 0 0,
       CtrlTransfer 0 0x21 0x09 0x0309 0x0200 red_packet 4000,
       ReleaseInterface 0 2, ReleaseInterface 0 0,
       SetConfiguration 0, IsKernelDriverActive 0 2, ClaimInterface 0 2,
       IsKernelDriverActive 0 0, ClaimInterface 0 0,
       CtrlTransfer 0 0x21 0x09 0x0309 2 red_packet 4000,
       ReleaseInterface 0 2, ReleaseInterface 0 0,
       SetConfiguration 0, IsKernelDriverActive 0 2, ClaimInterface 0 2,
       CtrlTransfer 0 0x21 0x09 0x0309 0x0200 red_packet 4000,
       ReleaseInterface 0 2,
       SetConfiguration 0, IsKernelDriverActive 0 2, ClaimInterface 0 2,
       CtrlTransfer 0 0x21 0x09 0x0309 2 red_packet 4000,
       ReleaseInterface 0 2])"
  by (simp add: set_rgb_single_def attempts_value transfer_eval host_stall_def
        REQUEST_TYPE_SET_REPORT_def REQUEST_SET_REPORT_def WVALUE_RGB_def USB_TIMEOUT_MS_def)

theorem C1_attempts_in_order_witness:
  "fst (set_rgb_single host_stall 0 red_packet build_apply_packet [])
     = fst (send_rgb_with_setup host_stall 0 [2] 2 red_packet build_apply_packet
             (snd (send_rgb_with_setup host_stall 0 [2] 0x0200 red_packet build_apply_packet
               (snd (send_rgb_with_setup host_stall 0 [2, 0] 2 red_packet build_apply_packet
                 (snd (send_rgb_with_setup host_stall 0 [2, 0] 0x0200 red_packet build_apply_packet []))))))) \<and>
   fst (set_rgb_single host_stall 0 red_packet build_apply_packet [])
     = Some (BackendError ''USB transfer failed (stall 3).'')"
proof -
  have 1: "fst (send_rgb_with_setup host_stall 0 [2, 0] 0x0200 red_packet build_apply_packet []) \<noteq> None"
    by (simp add: transfer_eval host_stall_def)
  have 2: "fst (send_rgb_with_setup host_stall 0 [2, 0] 2 red_packet build_apply_packet
                 (snd (send_rgb_with_setup host_stall 0 [2, 0] 0x0200 red_packet build_apply_packet []))) \<noteq> None"
    by (simp add: transfer_eval host_stall_def)
  have 3: "fst (send_rgb_with_setup host_stall 0 [2] 0x0200 red_packet build_apply_packet
               (snd (send_rgb_with_setup host_stall 0 [2, 0] 2 red_packet build_apply_packet
                 (snd (send_rgb_with_setup host_stall 0 [2, 0] 0x0200 red_packet build_apply_packet []))))) \<noteq> None"
    by (simp add: transfer_eval host_stall_def)
  have "fst (set_rgb_single host_stall 0 red_packet build_apply_packet [])
     = fst (send_rgb_with_setup host_stall 0 [2] 2 red_packet build_apply_packet
             (snd (send_rgb_with_setup host_stall 0 [2] 0x0200 red_packet build_apply_packet
               (snd (send_rgb_with_setup host_stall 0 [2, 0] 2 red_packet build_apply_packet
                 (snd (send_rgb_with_setup host_stall 0 [2, 0] 0x0200 red_packet build_apply_packet [])))))))"
    using 1 2 3 C1_attempts_in_order[of host_stall 0 red_packet build_apply_packet "[]"]
    by (auto split: prod.splits option.splits)
  then show ?thesis using stall_run by simp
qed

text \<open>The claim as stated fails: no attempt uses wIndex \<open>0x0202\<close>. On a host where every
  control transfer fails, the four attempts send their colour transfer with wIndex
  \<open>0x0200\<close>, \<open>2\<close>, \<open>0x0200\<close>, \<open>2\<close>.\<close>

theorem C1_counterexample:
  "WINDEX_INTERFACE_2 \<noteq> 0x0202 \<and>
   map snd attempts = [0x0200, 2, 0x0200, 2] \<and>
   map windex_of (filter is_transfer (snd (set_rgb_single host_stall 0 red_packet build_apply_packet [])))
     = [0x0200, 2, 0x0200, 2]"
  by (simp add: stall_run attempts_value WINDEX_INTERFACE_2_def)


section \<open>Batch dispatch\<close>

lemma attempts_loop_result:
  "last_error = None \<or> (\<exists>m. last_error = Some (BackendError m)) \<Longrightarrow>
   fst (attempts_loop hw dev rp ap as last_error tr) = None \<or>
   (\<exists>msg. fst (attempts_loop hw dev rp ap as last_error tr) = Some (BackendError msg))"
proof (induction as arbitrary: last_error tr)
  case Nil
  then show ?case by auto
next
  case (Cons a as)
  obtain ifs w where a: "a = (ifs, w)" by (cases a)
  obtain res tr1 where s: "send_rgb_with_setup hw dev ifs w rp ap tr = (res, tr1)"
    by (cases "send_rgb_with_setup hw dev ifs w rp ap tr")
  show ?case
  proof (cases res)
    case None
    then show ?thesis by (simp add: a s)
  next
    case (Some e)
    from send_result[of hw dev ifs w rp ap tr] s Some obtain m where m: "e = BackendError m" by auto
    have "attempts_loop hw dev rp ap (a # as) last_error tr = attempts_loop hw dev rp ap as (Some e) tr1"
      by (simp add: a s Some m)
    then show ?thesis using Cons.IH[of "Some e" tr1] m by simp
  qed
qed

lemma set_rgb_single_result:
  "fst (set_rgb_single hw dev rp ap tr) = None \<or>
   (\<exists>msg. fst (set_rgb_single hw dev rp ap tr) = Some (BackendError msg))"
  unfolding set_rgb_single_def by (rule attempts_loop_result) simp

lemma calibrated_in_range:
  "rgb_in_range (r, g, b) \<Longrightarrow> rgb_in_range (calibrated_rgb cm ct entry r g b)"
  by (simp add: calibrated_rgb_def apply_keeps_range split: option.splits)

lemma build_rgb_packet_ok:
  "rgb_in_range (x, y, z) \<Longrightarrow> \<exists>pk. build_rgb_packet x y z = Inr pk"
  by (simp add: build_rgb_packet_def bytearray_set_def rgb_in_range_def in_range_def)

lemma validate_rgb_iff:
  "validate_rgb r g b = None \<longleftrightarrow> rgb_in_range (r, g, b)"
  by (auto simp: validate_rgb_def rgb_in_range_def in_range_def)

lemma validate_rgb_fail:
  "\<not> rgb_in_range (r, g, b) \<Longrightarrow>
   validate_rgb r g b = Some (BackendError ''RGB values must be in range 0-255.'')"
  using validate_rgb_iff[of r g b] by (auto simp: validate_rgb_def split: if_splits)

lemma targets_loop_outcomes:
  assumes "rgb_in_range (r, g, b)"
  shows "fst (targets_loop hw ts r g b cm ct ap applied failures tr) =
           Inr (applied + int (length (filter (\<lambda>x. x = None) (device_outcomes hw ts r g b cm ct ap tr))),
                failures @ concat (map2 reported ts (device_outcomes hw ts r g b cm ct ap tr))) \<and>
         length (device_outcomes hw ts r g b cm ct ap tr) = length ts"
proof (induction ts arbitrary: applied failures tr)
  case Nil
  then show ?case by simp
next
  case (Cons entry rest)
  obtain x y z where c: "calibrated_rgb cm ct entry r g b = (x, y, z)"
    by (cases "calibrated_rgb cm ct entry r g b")
  have "rgb_in_range (x, y, z)" using calibrated_in_range[OF assms, of cm ct entry] c by simp
  then obtain pk where pk: "build_rgb_packet x y z = Inr pk" using build_rgb_packet_ok by blast
  obtain res tr1 where s: "set_rgb_single hw (handle (device entry)) pk ap tr = (res, tr1)"
    by (cases "set_rgb_single hw (handle (device entry)) pk ap tr")
  from set_rgb_single_result[of hw "handle (device entry)" pk ap tr] s
  consider "res = None" | msg where "res = Some (BackendError msg)" by auto
  then show ?case
  proof cases
    case 1
    then show ?thesis using Cons.IH[of "applied + 1" failures tr1] by (simp add: c pk s)
  next
    case 2
    then show ?thesis
      using Cons.IH[of applied "failures @ [failure_text entry msg]" tr1] by (simp add: c pk s)
  qed
qed

lemma resolve_targets_valid:
  "resolve_targets hw ids r g b entries tr = (Inr targets, entries1, tr1) \<Longrightarrow> rgb_in_range (r, g, b)"
  using validate_rgb_iff[of r g b]
  by (cases "validate_rgb r g b") (auto simp: resolve_targets_def)


text \<open>
  C4. Once the preconditions of \<open>set_rgb_many\<close> pass and yield \<open>N\<close> targets, the call
  returns a pair, never an exception. Every target gets its transfer, whatever happened
  to the targets before it; with \<open>M\<close> of them failing, \<open>success_count = N - M\<close>,
  \<open>len(failures) = M\<close>, and \<open>failures\<close> holds, in the order of the targets, the text
  \<open>Device {id} ({name}): {detail}\<close> of each failed one.
\<close>

theorem C4_batch_outcome:
  assumes "resolve_targets hw ids r g b entries tr = (Inr targets, entries1, tr1)"
  shows "\<exists>applied failures tr2.
           set_rgb_many hw ids r g b cals ct entries tr = (Inr (applied, failures), entries1, tr2) \<and>
           (let outs = device_outcomes hw targets r g b (case cals of None \<Rightarrow> [] | Some m \<Rightarrow> m) ct
                         build_apply_packet tr1;
                n = length targets;
                m = length (filter (\<lambda>x. x \<noteq> None) outs)
            in length outs = n \<and>
               applied = int n - int m \<and>
               length failures = m \<and>
               applied + int (length failures) = int n \<and>
               failures = concat (map2 reported targets outs) \<and>
               (\<forall>entry msg. reported entry (Some (BackendError msg)) =
                  [''Device '' @ str_int (id' (info entry)) @ '' ('' @ name (info entry) @ ''): '' @ msg]))"
proof -
  let ?cm = "case cals of None \<Rightarrow> [] | Some m \<Rightarrow> m"
  let ?outs = "device_outcomes hw targets r g b ?cm ct build_apply_packet tr1"
  have valid: "rgb_in_range (r, g, b)" using resolve_targets_valid[OF assms] .
  obtain res tr2 where loop: "targets_loop hw targets r g b ?cm ct build_apply_packet 0 [] tr1 = (res, tr2)"
    by (cases "targets_loop hw targets r g b ?cm ct build_apply_packet 0 [] tr1")
  from targets_loop_outcomes[OF valid, of hw targets ?cm ct build_apply_packet 0 "[]" tr1] loop
  have res: "res = Inr (int (length (filter (\<lambda>x. x = None) ?outs)), concat (map2 reported targets ?outs))"
    and len: "length ?outs = length targets"
    by simp_all
  have many: "set_rgb_many hw ids r g b cals ct entries tr =
      (Inr (int (length (filter (\<lambda>x. x = None) ?outs)), concat (map2 reported targets ?outs)), entries1, tr2)"
    using assms loop res by (simp add: set_rgb_many_def Let_def)
  have split_count: "length (filter (\<lambda>x. x = None) xs) + length (filter (\<lambda>x. x \<noteq> None) xs) = length xs"
    for xs :: "exn option list"
    using sum_length_filter_compl[of "\<lambda>x. x = None" xs] by simp
  have known: "\<forall>x\<in>set xs. x = None \<or> (\<exists>msg. x = Some (BackendError msg)) \<Longrightarrow> length ys = length xs \<Longrightarrow>
      length (concat (map2 reported ys xs)) = length (filter (\<lambda>x. x \<noteq> None) xs)"
    for xs :: "exn option list" and ys :: "DeviceEntry list"
  proof (induction xs arbitrary: ys)
    case Nil
    then show ?case by simp
  next
    case (Cons x xs)
    then obtain y ys' where ys: "ys = y # ys'" by (cases ys) auto
    from Cons.prems(1) consider "x = None" | msg where "x = Some (BackendError msg)" by auto
    then show ?case using Cons ys by cases auto
  qed
  have outs_kind: "\<forall>x\<in>set (device_outcomes hw ts r g b ?cm ct build_apply_packet t).
        x = None \<or> (\<exists>msg. x = Some (BackendError msg))" for ts t
  proof (induction ts arbitrary: t)
    case Nil
    then show ?case by simp
  next
    case (Cons entry rest)
    obtain x y z where c: "calibrated_rgb ?cm ct entry r g b = (x, y, z)"
      by (cases "calibrated_rgb ?cm ct entry r g b")
    have "rgb_in_range (x, y, z)" using calibrated_in_range[OF valid, of ?cm ct entry] c by simp
    then obtain pk where pk: "build_rgb_packet x y z = Inr pk" using build_rgb_packet_ok by blast
    obtain res' t' where s: "set_rgb_single hw (handle (device entry)) pk build_apply_packet t = (res', t')"
      by (cases "set_rgb_single hw (handle (device entry)) pk build_apply_packet t")
    from set_rgb_single_result[of hw "handle (device entry)" pk build_apply_packet t] s
    have "res' = None \<or> (\<exists>msg. res' = Some (BackendError msg))" by simp
    then show ?case using Cons.IH[of t'] by (simp add: c pk s)
  qed
  have lf: "length (concat (map2 reported targets ?outs)) = length (filter (\<lambda>x. x \<noteq> None) ?outs)"
    using known[OF outs_kind len[symmetric]] .
  have fmt: "\<forall>entry msg. reported entry (Some (BackendError msg)) =
      [''Device '' @ str_int (id' (info entry)) @ '' ('' @ name (info entry) @ ''): '' @ msg]"
    by (simp add: failure_text_def)
  let ?a = "int (length (filter (\<lambda>x. x = None) ?outs))"
  let ?f = "concat (map2 reported targets ?outs)"
  have c1: "?a = int (length targets) - int (length (filter (\<lambda>x. x \<noteq> None) ?outs))"
    using split_count[of ?outs] len by linarith
  have c2: "?a + int (length ?f) = int (length targets)"
    using c1 lf by linarith
  have body: "let outs = ?outs; n = length targets; m = length (filter (\<lambda>x. x \<noteq> None) outs)
      in length outs = n \<and> ?a = int n - int m \<and> length ?f = m \<and> ?a + int (length ?f) = int n \<and>
         ?f = concat (map2 reported targets outs) \<and>
         (\<forall>entry msg. reported entry (Some (BackendError msg)) =
            [''Device '' @ str_int (id' (info entry)) @ '' ('' @ name (info entry) @ ''): '' @ msg])"
    unfolding Let_def by (intro conjI len c1 lf c2 fmt refl)
  from many body show ?thesis by blast
qed


lemma resolve_all_entries2:
  "resolve_targets host_second_fails [0] 255 0 0 entries2 [] = (Inr entries2, entries2, [])"
  by (simp add: resolve_targets_def validate_rgb_def select_targets_def entries2_def Let_def)

lemma outcomes_entries2:
  "device_outcomes host_second_fails entries2 255 0 0 [] None build_apply_packet [] =
     [None, Some (BackendError ''USB transfer failed (boom).'')]"
  by (simp add: entries2_def calibrated_rgb_def build_rgb_packet_def bytearray_set_def
        set_rgb_single_def attempts_value transfer_eval host_second_fails_def)

theorem C4_batch_outcome_witness:
  "resolve_targets host_second_fails [0] 255 0 0 entries2 [] = (Inr entries2, entries2, []) \<and>
   fst (set_rgb_many host_second_fails [0] 255 0 0 None None entries2 [])
     = Inr (1, [''Device 2 (X-56 Throttle): USB transfer failed (boom).''])"
proof -
  from C4_batch_outcome[OF resolve_all_entries2, of None None]
  obtain applied failures tr2 where
    run: "set_rgb_many host_second_fails [0] 255 0 0 None None entries2 [] = (Inr (applied, failures), entries2, tr2)"
    and a: "applied = int (length entries2) - int (length (filter (\<lambda>x. x \<noteq> None)
              (device_outcomes host_second_fails entries2 255 0 0 [] None build_apply_packet [])))"
    and f: "failures = concat (map2 reported entries2
              (device_outcomes host_second_fails entries2 255 0 0 [] None build_apply_packet []))"
    unfolding Let_def by auto
  have a1: "applied = 1" using a by (simp add: outcomes_entries2) (simp add: entries2_def)
  have f1: "failures = [''Device 2 (X-56 Throttle): USB transfer failed (boom).'']"
    using f by (simp add: outcomes_entries2)
       (simp add: entries2_def failure_text_def dev2_def str_int_def str_nat.simps[of 2])
  from run a1 f1 resolve_all_entries2 show ?thesis by simp
qed

text \<open>
  C6. A call of \<open>set_rgb_many\<close> with a component of the colour outside [0, 255] raises
  before anything else happens. A call with an empty list of ids, or for which no known
  device matches the ids, raises too; no call to any device is made, the only call the
  trace can gain being the enumeration of the bus that \<open>refresh\<close> makes when the backend
  knows no device yet.
\<close>

theorem C6_preconditions_before_io:
  "(\<not> rgb_in_range (r, g, b) \<longrightarrow>
      set_rgb_many hw ids r g b cals ct entries tr =
        (Inl (BackendError ''RGB values must be in range 0-255.''), entries, tr)) \<and>
   (rgb_in_range (r, g, b) \<and> (ids = [] \<or> select_targets (known_entries hw entries tr) ids = []) \<longrightarrow>
      (\<exists>e entries1 tr1.
         set_rgb_many hw ids r g b cals ct entries tr = (Inl e, entries1, tr1) \<and>
         tr1 = (if entries = [] then tr @ [Find VENDOR_ID] else tr) \<and>
         device_calls tr1 = device_calls tr))"
proof (intro conjI impI)
  assume "\<not> rgb_in_range (r, g, b)"
  then show "set_rgb_many hw ids r g b cals ct entries tr =
        (Inl (BackendError ''RGB values must be in range 0-255.''), entries, tr)"
    using validate_rgb_fail[of r g b] by (simp add: set_rgb_many_def resolve_targets_def)
next
  assume a: "rgb_in_range (r, g, b) \<and> (ids = [] \<or> select_targets (known_entries hw entries tr) ids = [])"
  then have v: "validate_rgb r g b = None" using validate_rgb_iff by blast
  have sel: "select_targets [] ids = []" by (simp add: select_targets_def)
  show "\<exists>e entries1 tr1.
         set_rgb_many hw ids r g b cals ct entries tr = (Inl e, entries1, tr1) \<and>
         tr1 = (if entries = [] then tr @ [Find VENDOR_ID] else tr) \<and>
         device_calls tr1 = device_calls tr"
  proof (cases "entries = []")
    case False
    then show ?thesis using a v
      by (auto simp: set_rgb_many_def resolve_targets_def known_entries_def Let_def)
  next
    case True
    show ?thesis
    proof (cases "find_reply hw tr")
      case (Inl e)
      then show ?thesis using True v
        by (simp add: set_rgb_many_def resolve_targets_def refresh_def device_calls_def)
    next
      case (Inr devs)
      then show ?thesis using True v a
        by (auto simp: set_rgb_many_def resolve_targets_def refresh_def known_entries_def Let_def
              device_calls_def)
    qed
  qed
qed

theorem C6_preconditions_before_io_witness:
  "\<not> rgb_in_range (256, 0, 0) \<and>
   set_rgb_many host_ok [1] 256 0 0 None None entries2 [] =
     (Inl (BackendError ''RGB values must be in range 0-255.''), entries2, []) \<and>
   rgb_in_range (0, 0, 0) \<and>
   select_targets (known_entries host_ok entries2 []) [7] = [] \<and>
   (\<exists>e entries1. set_rgb_many host_ok [7] 0 0 0 None None entries2 [] = (Inl e, entries1, [])) \<and>
   select_targets (known_entries host_ok [] []) [1] = [] \<and>
   (\<exists>e entries1. set_rgb_many host_ok [1] 0 0 0 None None [] [] = (Inl e, entries1, [Find VENDOR_ID]))"
proof -
  have 1: "\<not> rgb_in_range (256, 0, 0)" by (simp add: rgb_in_range_def in_range_def)
  have 2: "rgb_in_range (0, 0, 0)" by (simp add: rgb_in_range_def in_range_def)
  have 3: "select_targets (known_entries host_ok entries2 []) [7] = []"
    by (simp add: known_entries_def select_targets_def entries2_def dev1_def dev2_def)
  have 4: "select_targets (known_entries host_ok [] []) [1] = []"
    by (simp add: known_entries_def select_targets_def refresh_def host_ok_def)
  have ne: "entries2 \<noteq> []" by (simp add: entries2_def)
  show ?thesis
    using 1 2 3 4 ne
      C6_preconditions_before_io[of 256 0 0 host_ok "[1]" None None entries2 "[]"]
      C6_preconditions_before_io[of 0 0 0 host_ok "[7]" None None entries2 "[]"]
      C6_preconditions_before_io[of 0 0 0 host_ok "[1]" None None "[]" "[]"]
    by auto
qed

text \<open>
  C10. When the list of ids passed to \<open>set_rgb_many\<close> contains the id 0, whatever else it
  contains, and the colour is valid and a device is known, the targets are exactly the
  known devices, in their order: the call is the loop over all of them.
\<close>

theorem C10_sentinel_selects_all:
  assumes "List.member ids 0"
    and "rgb_in_range (r, g, b)"
    and "known_entries hw entries tr \<noteq> []"
  shows "select_targets (known_entries hw entries tr) ids = known_entries hw entries tr \<and>
         fst (resolve_targets hw ids r g b entries tr) = Inr (known_entries hw entries tr) \<and>
         set_rgb_many hw ids r g b cals ct entries tr =
           (case targets_loop hw (known_entries hw entries tr) r g b
                   (case cals of None \<Rightarrow> [] | Some m \<Rightarrow> m) ct build_apply_packet 0 []
                   (if entries = [] then tr @ [Find VENDOR_ID] else tr) of
              (res, tr2) \<Rightarrow> (res, known_entries hw entries tr, tr2))"
proof -
  have v: "validate_rgb r g b = None" using assms(2) validate_rgb_iff by blast
  have ne: "ids \<noteq> []" using assms(1) by auto
  have sel: "select_targets es ids = es" for es using assms(1) by (simp add: select_targets_def)
  have res: "resolve_targets hw ids r g b entries tr =
      (Inr (known_entries hw entries tr), known_entries hw entries tr,
       if entries = [] then tr @ [Find VENDOR_ID] else tr)"
  proof (cases "entries = []")
    case False
    then show ?thesis using v ne sel by (simp add: resolve_targets_def known_entries_def Let_def)
  next
    case True
    show ?thesis
    proof (cases "find_reply hw tr")
      case (Inl e)
      then show ?thesis using True assms(3) by (simp add: known_entries_def refresh_def)
    next
      case (Inr devs)
      then show ?thesis using True assms(3) v ne sel
        by (simp add: resolve_targets_def known_entries_def refresh_def Let_def)
    qed
  qed
  show ?thesis using res sel by (simp add: set_rgb_many_def Let_def)
qed

lemma refresh_second_fails:
  "refresh host_second_fails [] [] = (Inr [dev1, dev2], entries2, [Find VENDOR_ID])"
  by (simp add: refresh_def host_second_fails_def SUPPORTED_PRODUCTS_def dict_get_def
        List.enumerate_simps entries2_def dev1_def dev2_def Let_def)

theorem C10_sentinel_selects_all_witness:
  "List.member [7, 0, 1] 0 \<and> rgb_in_range (255, 0, 0) \<and>
   known_entries host_second_fails [] [] = entries2 \<and> entries2 \<noteq> [] \<and>
   map (\<lambda>entry. id' (info entry)) entries2 = [1, 2] \<and>
   fst (resolve_targets host_second_fails [7, 0, 1] 255 0 0 [] []) = Inr entries2"
proof -
  have 1: "List.member [7, 0, 1] (0::int)" by simp
  have 2: "rgb_in_range (255, 0, 0)" by (simp add: rgb_in_range_def in_range_def)
  have 3: "known_entries host_second_fails [] [] = entries2"
    by (simp add: known_entries_def refresh_second_fails)
  have 4: "entries2 \<noteq> []" by (simp add: entries2_def)
  have 5: "known_entries host_second_fails [] [] \<noteq> []" using 3 4 by simp
  have 6: "map (\<lambda>entry. id' (info entry)) entries2 = [1, 2]"
    by (simp add: entries2_def dev1_def dev2_def)
  from C10_sentinel_selects_all[OF 1 2 5, of None None] 1 2 3 4 6 show ?thesis by simp
qed


section \<open>Effect scheduler\<close>

lemma tick_session_keeps:
  assumes "map_of (effect_sessions win) k = Some s" and "mode s \<noteq> EFFECT_OFF"
  shows "map_of (effect_sessions (snd (tick_session hw hsv k' win))) k = Some s \<or>
         (k' = k \<and> map_of (effect_sessions (snd (tick_session hw hsv k' win))) k = Some (advanced s))"
proof (cases "k' = k")
  case True
  show ?thesis using assms unfolding True
    by (auto simp: tick_session_def Let_def advanced_def update_conv'
          split: prod.splits sum.splits exn.splits)
next
  case False
  then have "map_of (effect_sessions (snd (tick_session hw hsv k' win))) k = map_of (effect_sessions win) k"
    by (auto simp: tick_session_def Let_def update_conv' delete_conv'
          split: option.splits prod.splits sum.splits exn.splits)
  then show ?thesis using assms by simp
qed


lemma advanced_mode: "mode (advanced s) = mode s"
  by (simp add: advanced_def)

lemma tick_loop_present:
  assumes "map_of (effect_sessions win) k = Some s" and "mode s \<noteq> EFFECT_OFF"
  shows "\<exists>ph. map_of (effect_sessions (snd (tick_loop hw hsv ks win))) k = Some (s\<lparr>phase := ph\<rparr>)"
  using assms
proof (induction ks arbitrary: win s)
  case Nil
  have "s\<lparr>phase := phase s\<rparr> = s" by simp
  then show ?case using Nil by (metis snd_conv tick_loop.simps(1))
next
  case (Cons k' ks)
  obtain r win1 where step: "tick_session hw hsv k' win = (r, win1)"
    by (cases "tick_session hw hsv k' win")
  from tick_session_keeps[OF Cons.prems, of hw hsv k'] step
  obtain s1 where s1: "map_of (effect_sessions win1) k = Some s1" and
    kind: "s1 = s \<or> s1 = advanced s"
    by auto
  have m1: "mode s1 \<noteq> EFFECT_OFF" using kind Cons.prems(2) advanced_mode by auto
  have shape: "\<exists>ph. s1 = s\<lparr>phase := ph\<rparr>"
  proof -
    have "s = s\<lparr>phase := phase s\<rparr>" by simp
    then show ?thesis using kind unfolding advanced_def by metis
  qed
  show ?case
  proof (cases r)
    case (Some e)
    then show ?thesis using step s1 shape by auto
  next
    case None
    from Cons.IH[OF s1 m1] obtain ph where
      "map_of (effect_sessions (snd (tick_loop hw hsv ks win1))) k = Some (s1\<lparr>phase := ph\<rparr>)" by blast
    moreover from shape obtain ph0 where "s1 = s\<lparr>phase := ph0\<rparr>" by blast
    ultimately have "map_of (effect_sessions (snd (tick_loop hw hsv ks win1))) k = Some (s\<lparr>phase := ph\<rparr>)"
      by simp
    then show ?thesis using step None by auto
  qed
qed

lemma tick_loop_once:
  assumes "map_of (effect_sessions win) k = Some s" and "mode s \<noteq> EFFECT_OFF" and "distinct ks"
  shows "(k \<notin> set ks \<longrightarrow> map_of (effect_sessions (snd (tick_loop hw hsv ks win))) k = Some s) \<and>
         (map_of (effect_sessions (snd (tick_loop hw hsv ks win))) k = Some s \<or>
          map_of (effect_sessions (snd (tick_loop hw hsv ks win))) k = Some (advanced s))"
  using assms
proof (induction ks arbitrary: win s)
  case Nil
  then show ?case by simp
next
  case (Cons k' ks)
  obtain r win1 where step: "tick_session hw hsv k' win = (r, win1)"
    by (cases "tick_session hw hsv k' win")
  have dk: "distinct ks" and nk: "k' \<notin> set ks" using Cons.prems(3) by auto
  from tick_session_keeps[OF Cons.prems(1,2), of hw hsv k'] step
  consider (same) "map_of (effect_sessions win1) k = Some s"
    | (adv) "k' = k" "map_of (effect_sessions win1) k = Some (advanced s)"
    by auto
  then show ?case
  proof cases
    case same
    show ?thesis
    proof (cases r)
      case (Some e)
      then show ?thesis using step same by auto
    next
      case None
      then show ?thesis using Cons.IH[OF same Cons.prems(2) dk] step by auto
    qed
  next
    case adv
    have m: "mode (advanced s) \<noteq> EFFECT_OFF" using Cons.prems(2) advanced_mode by simp
    have notin: "k \<notin> set ks" using adv(1) nk by simp
    show ?thesis
    proof (cases r)
      case (Some e)
      then show ?thesis using step adv by auto
    next
      case None
      then show ?thesis using Cons.IH[OF adv(2) m dk] notin step adv(1) by auto
    qed
  qed
qed

lemma tick_session_devices: "devices (snd (tick_session hw hsv k win)) = devices win"
  by (auto simp: tick_session_def Let_def split: option.splits prod.splits sum.splits exn.splits)

lemma tick_loop_devices: "devices (snd (tick_loop hw hsv ks win)) = devices win"
proof (induction ks arbitrary: win)
  case Nil
  then show ?case by simp
next
  case (Cons k ks)
  obtain r win1 where step: "tick_session hw hsv k win = (r, win1)"
    by (cases "tick_session hw hsv k win")
  have d: "devices win1 = devices win" using tick_session_devices[of hw hsv k win] step by simp
  show ?case using Cons.IH[of win1] d step by (cases r) auto
qed

lemma tick_loop_append:
  "tick_loop hw hsv (ks1 @ ks2) win =
     (case tick_loop hw hsv ks1 win of
        (Some e, win1) \<Rightarrow> (Some e, win1)
      | (None, win1) \<Rightarrow> tick_loop hw hsv ks2 win1)"
proof (induction ks1 arbitrary: win)
  case Nil
  then show ?case by simp
next
  case (Cons k ks1)
  obtain r win1 where step: "tick_session hw hsv k win = (r, win1)"
    by (cases "tick_session hw hsv k win")
  show ?case using Cons.IH[of win1] step by (cases r) auto
qed

lemma effect_tick_at_turn:
  assumes present: "map_of (effect_sessions win) k = Some s"
    and on: "mode s \<noteq> EFFECT_OFF"
    and dist: "distinct (map fst (effect_sessions win))"
    and devs: "devices win \<noteq> []"
    and keys: "map fst (effect_sessions win) = ks1 @ k # ks2"
    and before: "tick_loop hw hsv ks1 win = (None, win1)"
  shows "map_of (effect_sessions win1) k = Some s"
    and "devices win1 = devices win"
    and "map_of (effect_sessions (snd (effect_tick hw hsv win))) k
           = map_of (effect_sessions (snd (tick_session hw hsv k win1))) k"
proof -
  have d1: "distinct ks1" and d2: "distinct ks2" and n1: "k \<notin> set ks1" and n2: "k \<notin> set ks2"
    using dist keys by auto
  show at: "map_of (effect_sessions win1) k = Some s"
    using tick_loop_once[OF present on d1, of hw hsv] n1 before by simp
  show "devices win1 = devices win"
    using tick_loop_devices[of hw hsv ks1 win] before by simp
  have ne: "effect_sessions win \<noteq> []" using present by auto
  obtain r win2 where step: "tick_session hw hsv k win1 = (r, win2)"
    by (cases "tick_session hw hsv k win1")
  from tick_session_keeps[OF at on, of hw hsv k] step
  obtain s2 where s2: "map_of (effect_sessions win2) k = Some s2" and
    kind: "s2 = s \<or> s2 = advanced s" by auto
  have m2: "mode s2 \<noteq> EFFECT_OFF" using kind on advanced_mode by auto
  have whole: "effect_tick hw hsv win =
      (case r of Some e \<Rightarrow> (Some e, win2) | None \<Rightarrow> tick_loop hw hsv ks2 win2)"
    using ne devs keys before step
    by (simp add: effect_tick_def tick_loop_append split: option.splits)
  have rest: "map_of (effect_sessions (snd (tick_loop hw hsv ks2 win2))) k = Some s2"
    using tick_loop_once[OF s2 m2 d2, of hw hsv] n2 by simp
  show "map_of (effect_sessions (snd (effect_tick hw hsv win))) k
           = map_of (effect_sessions (snd (tick_session hw hsv k win1))) k"
    using whole rest s2 step by (cases r) simp_all
qed


lemma tick_session_skip:
  assumes "map_of (effect_sessions win) k = Some s" and "mode s \<noteq> EFFECT_OFF"
    and "resolved_target_ids (devices win) s = []"
  shows "tick_session hw hsv k win = (None, win)"
  using assms by (simp add: tick_session_def Let_def)

lemma tick_session_dispatch:
  assumes "map_of (effect_sessions win) k = Some s" and "mode s \<noteq> EFFECT_OFF"
    and "resolved_target_ids (devices win) s \<noteq> []"
    and "compute_effect_color hsv (mode s) (base_rgb s) (phase s) (real_of_int (brightness s) / 100)
           = (r, g, b)"
    and "build_calibration_map (calibration_store win) (devices win)
           (resolved_target_ids (devices win) s) = (Inr cm, store1)"
    and "set_rgb_many hw (resolved_target_ids (devices win) s) r g b (Some cm) None
           (backend_entries win) (usb_trace win) = (res, entries1, tr1)"
  shows "res = Inl e \<Longrightarrow> map_of (effect_sessions (snd (tick_session hw hsv k win))) k = Some s"
    and "res = Inl (BackendError msg) \<Longrightarrow> fst (tick_session hw hsv k win) = None"
    and "res = Inr (applied, failures) \<Longrightarrow> fst (tick_session hw hsv k win) = None"
    and "res = Inr (applied, failures) \<Longrightarrow>
           map_of (effect_sessions (snd (tick_session hw hsv k win))) k
             = Some (s\<lparr>phase := next_phase (phase s) (speed s)\<rparr>)"
proof -
  show "res = Inl e \<Longrightarrow> map_of (effect_sessions (snd (tick_session hw hsv k win))) k = Some s"
    using assms by (cases e) (simp_all add: tick_session_def Let_def)
  show "res = Inl (BackendError msg) \<Longrightarrow> fst (tick_session hw hsv k win) = None"
    using assms by (simp add: tick_session_def Let_def)
  show "res = Inr (applied, failures) \<Longrightarrow> fst (tick_session hw hsv k win) = None"
    using assms by (simp add: tick_session_def Let_def)
  show "res = Inr (applied, failures) \<Longrightarrow>
           map_of (effect_sessions (snd (tick_session hw hsv k win))) k
             = Some (s\<lparr>phase := next_phase (phase s) (speed s)\<rparr>)"
    using assms by (simp add: tick_session_def Let_def update_conv')
qed

text \<open>
  C9. For a session \<open>s\<close> that is present under the key \<open>k\<close> with a mode other than off.
  In its turn (\<open>tick_session\<close>): when its targets resolve to nothing the window is left as
  it is; when the dispatch raises the session keeps its phase (and the tick goes on to the
  next session when the exception is \<open>BackendError\<close>); when the dispatch returns, whatever
  failures it reports, the phase is advanced by \<open>next_phase\<close>; the turn of another session
  does not touch it. In a whole tick (\<open>effect_tick\<close>) on a window with devices: the
  sessions before \<open>k\<close> leave \<open>s\<close> as it is, and what the tick leaves under \<open>k\<close> is decided
  at the window \<open>win1\<close> those sessions produce: \<open>s\<close> when its targets resolve to nothing,
  \<open>s\<close> when the dispatch made there raises, \<open>s\<close> with its phase advanced when that
  dispatch returns; \<open>s\<close> again when an earlier session ends the tick with an exception.
  Without devices the tick does nothing. A session missing after a tick was missing
  before or had mode off, and \<open>stop_all_effects\<close> removes every session.
\<close>

theorem C9_effect_tick_sessions:
  assumes "map_of (effect_sessions win) k = Some s"
    and "mode s \<noteq> EFFECT_OFF"
    and "distinct (map fst (effect_sessions win))"
  shows "(resolved_target_ids (devices win) s = [] \<longrightarrow> tick_session hw hsv k win = (None, win)) \<and>
         (\<forall>r g b cm store1 res entries1 tr1.
            resolved_target_ids (devices win) s \<noteq> [] \<and>
            compute_effect_color hsv (mode s) (base_rgb s) (phase s) (real_of_int (brightness s) / 100)
              = (r, g, b) \<and>
            build_calibration_map (calibration_store win) (devices win)
              (resolved_target_ids (devices win) s) = (Inr cm, store1) \<and>
            set_rgb_many hw (resolved_target_ids (devices win) s) r g b (Some cm) None
              (backend_entries win) (usb_trace win) = (res, entries1, tr1)
            \<longrightarrow>
            (\<forall>e. res = Inl e \<longrightarrow>
               map_of (effect_sessions (snd (tick_session hw hsv k win))) k = Some s) \<and>
            (\<forall>msg. res = Inl (BackendError msg) \<longrightarrow> fst (tick_session hw hsv k win) = None) \<and>
            (\<forall>applied failures. res = Inr (applied, failures) \<longrightarrow>
               fst (tick_session hw hsv k win) = None \<and>
               map_of (effect_sessions (snd (tick_session hw hsv k win))) k
                 = Some (s\<lparr>phase := next_phase (phase s) (speed s)\<rparr>))) \<and>
         (\<forall>k'. k' \<noteq> k \<longrightarrow> map_of (effect_sessions (snd (tick_session hw hsv k' win))) k = Some s) \<and>
         (\<forall>ks1 ks2 win1.
            devices win \<noteq> [] \<and> map fst (effect_sessions win) = ks1 @ k # ks2 \<and>
            tick_loop hw hsv ks1 win = (None, win1)
            \<longrightarrow>
            map_of (effect_sessions win1) k = Some s \<and>
            devices win1 = devices win \<and>
            (resolved_target_ids (devices win) s = [] \<longrightarrow>
               map_of (effect_sessions (snd (effect_tick hw hsv win))) k = Some s) \<and>
            (\<forall>r g b cm store1 res entries1 tr1.
               resolved_target_ids (devices win) s \<noteq> [] \<and>
               compute_effect_color hsv (mode s) (base_rgb s) (phase s) (real_of_int (brightness s) / 100)
                 = (r, g, b) \<and>
               build_calibration_map (calibration_store win1) (devices win)
                 (resolved_target_ids (devices win) s) = (Inr cm, store1) \<and>
               set_rgb_many hw (resolved_target_ids (devices win) s) r g b (Some cm) None
                 (backend_entries win1) (usb_trace win1) = (res, entries1, tr1)
               \<longrightarrow>
               (\<forall>e. res = Inl e \<longrightarrow>
                  map_of (effect_sessions (snd (effect_tick hw hsv win))) k = Some s) \<and>
               (\<forall>applied failures. res = Inr (applied, failures) \<longrightarrow>
                  map_of (effect_sessions (snd (effect_tick hw hsv win))) k
                    = Some (s\<lparr>phase := next_phase (phase s) (speed s)\<rparr>)))) \<and>
         (\<forall>ks1 ks2 e win1.
            devices win \<noteq> [] \<and> map fst (effect_sessions win) = ks1 @ k # ks2 \<and>
            tick_loop hw hsv ks1 win = (Some e, win1)
            \<longrightarrow>
            effect_tick hw hsv win = (Some e, win1) \<and>
            map_of (effect_sessions (snd (effect_tick hw hsv win))) k = Some s) \<and>
         (devices win = [] \<longrightarrow> effect_tick hw hsv win = (None, win)) \<and>
         (map_of (effect_sessions (snd (effect_tick hw hsv win))) k = Some s \<or>
          map_of (effect_sessions (snd (effect_tick hw hsv win))) k
            = Some (s\<lparr>phase := next_phase (phase s) (speed s)\<rparr>)) \<and>
         (\<forall>k'. map_of (effect_sessions (snd (effect_tick hw hsv win))) k' = None \<longrightarrow>
            map_of (effect_sessions win) k' = None \<or>
            (\<exists>s'. map_of (effect_sessions win) k' = Some s' \<and> mode s' = EFFECT_OFF)) \<and>
         effect_sessions (stop_all_effects win) = []"
proof (intro conjI allI impI)
  assume "resolved_target_ids (devices win) s = []"
  then show "tick_session hw hsv k win = (None, win)"
    using tick_session_skip[OF assms(1,2)] by simp
next
  fix r g b cm store1 res entries1 tr1 e
  assume a: "resolved_target_ids (devices win) s \<noteq> [] \<and>
            compute_effect_color hsv (mode s) (base_rgb s) (phase s) (real_of_int (brightness s) / 100)
              = (r, g, b) \<and>
            build_calibration_map (calibration_store win) (devices win)
              (resolved_target_ids (devices win) s) = (Inr cm, store1) \<and>
            set_rgb_many hw (resolved_target_ids (devices win) s) r g b (Some cm) None
              (backend_entries win) (usb_trace win) = (res, entries1, tr1)"
    and e: "res = Inl e"
  show "map_of (effect_sessions (snd (tick_session hw hsv k win))) k = Some s"
    using tick_session_dispatch(1)[OF assms(1,2), of hsv r g b cm store1 hw res entries1 tr1 e] a e by blast
next
  fix r g b cm store1 res entries1 tr1 msg
  assume a: "resolved_target_ids (devices win) s \<noteq> [] \<and>
            compute_effect_color hsv (mode s) (base_rgb s) (phase s) (real_of_int (brightness s) / 100)
              = (r, g, b) \<and>
            build_calibration_map (calibration_store win) (devices win)
              (resolved_target_ids (devices win) s) = (Inr cm, store1) \<and>
            set_rgb_many hw (resolved_target_ids (devices win) s) r g b (Some cm) None
              (backend_entries win) (usb_trace win) = (res, entries1, tr1)"
    and e: "res = Inl (BackendError msg)"
  show "fst (tick_session hw hsv k win) = None"
    using tick_session_dispatch(2)[OF assms(1,2), of hsv r g b cm store1 hw res entries1 tr1 msg] a e by blast
next
  fix r g b cm store1 res entries1 tr1 applied failures
  assume a: "resolved_target_ids (devices win) s \<noteq> [] \<and>
            compute_effect_color hsv (mode s) (base_rgb s) (phase s) (real_of_int (brightness s) / 100)
              = (r, g, b) \<and>
            build_calibration_map (calibration_store win) (devices win)
              (resolved_target_ids (devices win) s) = (Inr cm, store1) \<and>
            set_rgb_many hw (resolved_target_ids (devices win) s) r g b (Some cm) None
              (backend_entries win) (usb_trace win) = (res, entries1, tr1)"
    and e: "res = Inr (applied, failures)"
  show "fst (tick_session hw hsv k win) = None"
    using tick_session_dispatch(3)[OF assms(1,2), of hsv r g b cm store1 hw res entries1 tr1 applied failures]
      a e by blast
  show "map_of (effect_sessions (snd (tick_session hw hsv k win))) k
          = Some (s\<lparr>phase := next_phase (phase s) (speed s)\<rparr>)"
    using tick_session_dispatch(4)[OF assms(1,2), of hsv r g b cm store1 hw res entries1 tr1 applied failures]
      a e by blast
next
  fix k' assume "k' \<noteq> k"
  then show "map_of (effect_sessions (snd (tick_session hw hsv k' win))) k = Some s"
    using tick_session_keeps[OF assms(1,2), of hw hsv k'] by auto
next
  fix ks1 ks2 win1
  assume t: "devices win \<noteq> [] \<and> map fst (effect_sessions win) = ks1 @ k # ks2 \<and>
            tick_loop hw hsv ks1 win = (None, win1)"
  note turn = effect_tick_at_turn[OF assms(1,2,3), of ks1 ks2 hw hsv win1]
  show at: "map_of (effect_sessions win1) k = Some s" using turn(1) t by blast
  show dv: "devices win1 = devices win" using turn(2) t by blast
  have whole: "map_of (effect_sessions (snd (effect_tick hw hsv win))) k
                 = map_of (effect_sessions (snd (tick_session hw hsv k win1))) k"
    using turn(3) t by blast
  {
    assume "resolved_target_ids (devices win) s = []"
    then show "map_of (effect_sessions (snd (effect_tick hw hsv win))) k = Some s"
      using tick_session_skip[OF at assms(2), of hw hsv] whole at dv by simp
  }
  {
    fix r g b cm store1 res entries1 tr1 e
    assume a: "resolved_target_ids (devices win) s \<noteq> [] \<and>
            compute_effect_color hsv (mode s) (base_rgb s) (phase s) (real_of_int (brightness s) / 100)
              = (r, g, b) \<and>
            build_calibration_map (calibration_store win1) (devices win)
              (resolved_target_ids (devices win) s) = (Inr cm, store1) \<and>
            set_rgb_many hw (resolved_target_ids (devices win) s) r g b (Some cm) None
              (backend_entries win1) (usb_trace win1) = (res, entries1, tr1)"
      and e: "res = Inl e"
    show "map_of (effect_sessions (snd (effect_tick hw hsv win))) k = Some s"
      using tick_session_dispatch(1)[OF at assms(2), of hsv r g b cm store1 hw res entries1 tr1 e]
        a e whole dv by simp
  }
  {
    fix r g b cm store1 res entries1 tr1 applied failures
    assume a: "resolved_target_ids (devices win) s \<noteq> [] \<and>
            compute_effect_color hsv (mode s) (base_rgb s) (phase s) (real_of_int (brightness s) / 100)
              = (r, g, b) \<and>
            build_calibration_map (calibration_store win1) (devices win)
              (resolved_target_ids (devices win) s) = (Inr cm, store1) \<and>
            set_rgb_many hw (resolved_target_ids (devices win) s) r g b (Some cm) None
              (backend_entries win1) (usb_trace win1) = (res, entries1, tr1)"
      and e: "res = Inr (applied, failures)"
    show "map_of (effect_sessions (snd (effect_tick hw hsv win))) k
            = Some (s\<lparr>phase := next_phase (phase s) (speed s)\<rparr>)"
      using tick_session_dispatch(4)[OF at assms(2), of hsv r g b cm store1 hw res entries1 tr1 applied failures]
        a e whole dv by simp
  }
next
  fix ks1 ks2 e win1
  assume t: "devices win \<noteq> [] \<and> map fst (effect_sessions win) = ks1 @ k # ks2 \<and>
            tick_loop hw hsv ks1 win = (Some e, win1)"
  have ne: "effect_sessions win \<noteq> []" using assms(1) by auto
  show whole: "effect_tick hw hsv win = (Some e, win1)"
    using t ne by (simp add: effect_tick_def tick_loop_append)
  have d1: "distinct ks1" and n1: "k \<notin> set ks1" using assms(3) t by auto
  show "map_of (effect_sessions (snd (effect_tick hw hsv win))) k = Some s"
    using tick_loop_once[OF assms(1,2) d1, of hw hsv] n1 t whole by simp
next
  assume "devices win = []"
  then show "effect_tick hw hsv win = (None, win)" by (simp add: effect_tick_def)
next
  show "map_of (effect_sessions (snd (effect_tick hw hsv win))) k = Some s \<or>
        map_of (effect_sessions (snd (effect_tick hw hsv win))) k
          = Some (s\<lparr>phase := next_phase (phase s) (speed s)\<rparr>)"
    using tick_loop_once[OF assms(1,2,3), of hw hsv] assms(1)
    by (auto simp: effect_tick_def advanced_def)
next
  fix k' assume gone: "map_of (effect_sessions (snd (effect_tick hw hsv win))) k' = None"
  show "map_of (effect_sessions win) k' = None \<or>
        (\<exists>s'. map_of (effect_sessions win) k' = Some s' \<and> mode s' = EFFECT_OFF)"
  proof (cases "map_of (effect_sessions win) k'")
    case None
    then show ?thesis by simp
  next
    case (Some s')
    show ?thesis
    proof (cases "mode s' = EFFECT_OFF")
      case True
      then show ?thesis using Some by simp
    next
      case False
      from tick_loop_present[OF Some False, of hw hsv "map fst (effect_sessions win)"] gone Some
      show ?thesis by (auto simp: effect_tick_def split: if_splits)
    qed
  qed
next
  show "effect_sessions (stop_all_effects win) = []" by (simp add: stop_all_effects_def)
qed

lemma dispatch_entries2:
  "fst (set_rgb_many host_second_fails [1, 2] 255 0 0 (Some []) None entries2 [])
     = Inr (1, [''Device 2 (X-56 Throttle): USB transfer failed (boom).''])"
proof -
  have r: "resolve_targets host_second_fails [1, 2] 255 0 0 entries2 [] = (Inr entries2, entries2, [])"
    by (simp add: resolve_targets_def validate_rgb_def select_targets_def entries2_def dev1_def dev2_def Let_def)
  have v: "rgb_in_range (255, 0, 0)" by (simp add: rgb_in_range_def in_range_def)
  have "fst (targets_loop host_second_fails entries2 255 0 0 [] None build_apply_packet 0 [] [])
          = Inr (1, [''Device 2 (X-56 Throttle): USB transfer failed (boom).''])"
    using targets_loop_outcomes[OF v, of host_second_fails entries2 "[]" None build_apply_packet 0 "[]" "[]"]
    by (simp add: outcomes_entries2)
       (simp add: entries2_def failure_text_def dev2_def str_int_def str_nat.simps[of 2])
  then show ?thesis
    by (cases "targets_loop host_second_fails entries2 255 0 0 [] None build_apply_packet 0 [] []")
       (simp add: set_rgb_many_def r)
qed

lemma dispatch_stale:
  "fst (set_rgb_many host_second_fails [1, 2] 255 0 0 (Some []) None (backend_entries win_stale) [])
     = Inl (BackendError ''Selected device ids were not found.'')"
  by (simp add: set_rgb_many_def resolve_targets_def validate_rgb_def select_targets_def
        win_stale_def win0_def Let_def)

lemma rainbow_at_zero:
  "compute_effect_color hsv_red ''rainbow'' (0, 0, 0) 0 (real_of_int 100 / 100) = (255, 0, 0)"
  by (simp add: compute_effect_color_def EFFECT_RAINBOW_def hsv_red_def py_round_def clamp_rgb_def Let_def)

lemma calibration_map_empty_store:
  "build_calibration_map empty_store [dev1, dev2] [1, 2] = (Inr [], empty_store)"
  by (simp add: build_calibration_map_def get_for_device_def empty_store_def dev1_def dev2_def Let_def)

theorem C9_effect_tick_sessions_witness:
  "map_of (effect_sessions win0) ''manual'' = Some manual_session \<and>
   mode manual_session \<noteq> EFFECT_OFF \<and>
   distinct (map fst (effect_sessions win0)) \<and>
   resolved_target_ids (devices win0) manual_session = [1, 2] \<and>
   fst (set_rgb_many host_second_fails [1, 2] 255 0 0 (Some []) None entries2 [])
     = Inr (1, [''Device 2 (X-56 Throttle): USB transfer failed (boom).'']) \<and>
   map_of (effect_sessions (snd (tick_session host_second_fails hsv_red ''manual'' win0))) ''manual''
     = Some (manual_session\<lparr>phase := 3 / 50\<rparr>) \<and>
   map_of (effect_sessions (snd (effect_tick host_second_fails hsv_red win0))) ''manual''
     = Some (manual_session\<lparr>phase := 3 / 50\<rparr>) \<and>
   map_of (effect_sessions win0) ''profile:4660'' = Some absent_session \<and>
   resolved_target_ids (devices win0) absent_session = [] \<and>
   tick_session host_second_fails hsv_red ''profile:4660'' win0 = (None, win0) \<and>
   map_of (effect_sessions (snd (effect_tick host_second_fails hsv_red win0))) ''profile:4660''
     = Some absent_session \<and>
   fst (set_rgb_many host_second_fails [1, 2] 255 0 0 (Some []) None (backend_entries win_stale) [])
     = Inl (BackendError ''Selected device ids were not found.'') \<and>
   map_of (effect_sessions (snd (tick_session host_second_fails hsv_red ''manual'' win_stale))) ''manual''
     = Some manual_session \<and>
   map_of (effect_sessions (snd (effect_tick host_second_fails hsv_red win_stale))) ''manual''
     = Some manual_session"
proof -
  have 1: "map_of (effect_sessions win0) ''manual'' = Some manual_session" by (simp add: win0_def)
  have 2: "mode manual_session \<noteq> EFFECT_OFF" by (simp add: manual_session_def EFFECT_OFF_def)
  have 3: "distinct (map fst (effect_sessions win0))" by (simp add: win0_def)
  have 4: "resolved_target_ids (devices win0) manual_session = [1, 2]"
    by (simp add: resolved_target_ids_def win0_def manual_session_def dev1_def dev2_def)
  have p1: "resolved_target_ids (devices win0) manual_session \<noteq> []" unfolding 4 by simp
  have col: "compute_effect_color hsv_red (mode manual_session) (base_rgb manual_session)
               (phase manual_session) (real_of_int (brightness manual_session) / 100) = (255, 0, 0)"
    using rainbow_at_zero by (simp add: manual_session_def)
  have cm: "build_calibration_map (calibration_store win0) (devices win0)
              (resolved_target_ids (devices win0) manual_session) = (Inr [], empty_store)"
    unfolding 4 using calibration_map_empty_store by (simp add: win0_def)
  have np: "next_phase (phase manual_session) (speed manual_session) = 3 / 50"
    by (simp add: next_phase_def manual_session_def)
  have dv: "devices win0 \<noteq> []" by (simp add: win0_def)
  have keys: "map fst (effect_sessions win0) = [] @ ''manual'' # [''profile:4660'']"
    by (simp add: win0_def)
  have start: "tick_loop host_second_fails hsv_red [] win0 = (None, win0)" by simp
  let ?run = "set_rgb_many host_second_fails [1, 2] 255 0 0 (Some []) None entries2 []"
  have run: "set_rgb_many host_second_fails (resolved_target_ids (devices win0) manual_session) 255 0 0
               (Some []) None (backend_entries win0) (usb_trace win0)
             = (Inr (1, [''Device 2 (X-56 Throttle): USB transfer failed (boom).'']), fst (snd ?run), snd (snd ?run))"
    using dispatch_entries2 unfolding 4 by (simp add: win0_def prod_eq_iff)
  note prem = conjI[OF p1 conjI[OF col conjI[OF cm run]]]
  note T = C9_effect_tick_sessions[OF 1 2 3, of host_second_fails hsv_red]
  note T2 = T[THEN conjunct2, THEN conjunct1, rule_format, OF prem]
  note T2r = T2[THEN conjunct2, THEN conjunct2, rule_format, OF refl]
  have 5: "map_of (effect_sessions (snd (tick_session host_second_fails hsv_red ''manual'' win0))) ''manual''
             = Some (manual_session\<lparr>phase := 3 / 50\<rparr>)"
    using T2r[THEN conjunct2] unfolding np .
  have f5: "fst (tick_session host_second_fails hsv_red ''manual'' win0) = None"
    using T2r[THEN conjunct1] .
  note T4 = T[THEN conjunct2, THEN conjunct2, THEN conjunct2, THEN conjunct1, rule_format,
              OF conjI[OF dv conjI[OF keys start]]]
  note T4d = T4[THEN conjunct2, THEN conjunct2, THEN conjunct2, rule_format, OF prem]
  have 6: "map_of (effect_sessions (snd (effect_tick host_second_fails hsv_red win0))) ''manual''
             = Some (manual_session\<lparr>phase := 3 / 50\<rparr>)"
    using T4d[THEN conjunct2, rule_format, OF refl] unfolding np .
  have 7: "map_of (effect_sessions win0) ''profile:4660'' = Some absent_session" by (simp add: win0_def)
  have 8: "mode absent_session \<noteq> EFFECT_OFF" by (simp add: absent_session_def EFFECT_OFF_def)
  have 9: "resolved_target_ids (devices win0) absent_session = []"
    by (simp add: resolved_target_ids_def win0_def absent_session_def dev1_def dev2_def)
  note A = C9_effect_tick_sessions[OF 7 8 3, of host_second_fails hsv_red]
  have 10: "tick_session host_second_fails hsv_red ''profile:4660'' win0 = (None, win0)"
    using A[THEN conjunct1, rule_format, OF 9] .
  have keys2: "map fst (effect_sessions win0) = [''manual''] @ ''profile:4660'' # []"
    by (simp add: win0_def)
  have first: "tick_loop host_second_fails hsv_red [''manual''] win0
                 = (None, snd (tick_session host_second_fails hsv_red ''manual'' win0))"
    using f5 by (cases "tick_session host_second_fails hsv_red ''manual'' win0") simp
  note A4 = A[THEN conjunct2, THEN conjunct2, THEN conjunct2, THEN conjunct1, rule_format,
              OF conjI[OF dv conjI[OF keys2 first]]]
  have 11: "map_of (effect_sessions (snd (effect_tick host_second_fails hsv_red win0))) ''profile:4660''
              = Some absent_session"
    using A4[THEN conjunct2, THEN conjunct2, THEN conjunct1, rule_format, OF 9] .
  have s1: "map_of (effect_sessions win_stale) ''manual'' = Some manual_session"
    by (simp add: win_stale_def win0_def)
  have s3: "distinct (map fst (effect_sessions win_stale))" by (simp add: win_stale_def win0_def)
  have s4: "resolved_target_ids (devices win_stale) manual_session = [1, 2]"
    using 4 by (simp add: win_stale_def)
  have sp1: "resolved_target_ids (devices win_stale) manual_session \<noteq> []" unfolding s4 by simp
  have sdv: "devices win_stale \<noteq> []" by (simp add: win_stale_def win0_def)
  have skeys: "map fst (effect_sessions win_stale) = [] @ ''manual'' # [''profile:4660'']"
    by (simp add: win_stale_def win0_def)
  have sstart: "tick_loop host_second_fails hsv_red [] win_stale = (None, win_stale)" by simp
  have scm: "build_calibration_map (calibration_store win_stale) (devices win_stale)
               (resolved_target_ids (devices win_stale) manual_session) = (Inr [], empty_store)"
    unfolding s4 using calibration_map_empty_store by (simp add: win_stale_def win0_def)
  let ?stale = "set_rgb_many host_second_fails [1, 2] 255 0 0 (Some []) None (backend_entries win_stale) []"
  have srun: "set_rgb_many host_second_fails (resolved_target_ids (devices win_stale) manual_session) 255 0 0
               (Some []) None (backend_entries win_stale) (usb_trace win_stale)
             = (Inl (BackendError ''Selected device ids were not found.''), fst (snd ?stale), snd (snd ?stale))"
    using dispatch_stale unfolding s4 by (simp add: win_stale_def win0_def prod_eq_iff)
  note sprem = conjI[OF sp1 conjI[OF col conjI[OF scm srun]]]
  note S = C9_effect_tick_sessions[OF s1 2 s3, of host_second_fails hsv_red]
  have 12: "map_of (effect_sessions (snd (tick_session host_second_fails hsv_red ''manual'' win_stale))) ''manual''
             = Some manual_session"
    using S[THEN conjunct2, THEN conjunct1, rule_format, OF sprem, THEN conjunct1, rule_format, OF refl] .
  note S4 = S[THEN conjunct2, THEN conjunct2, THEN conjunct2, THEN conjunct1, rule_format,
              OF conjI[OF sdv conjI[OF skeys sstart]]]
  have 13: "map_of (effect_sessions (snd (effect_tick host_second_fails hsv_red win_stale))) ''manual''
             = Some manual_session"
    using S4[THEN conjunct2, THEN conjunct2, THEN conjunct2, rule_format, OF sprem,
             THEN conjunct1, rule_format, OF refl] .
  from 1 2 3 4 dispatch_entries2 5 6 7 9 10 11 dispatch_stale 12 13 show ?thesis by (intro conjI)
qed

end
